(* ===== verification/Dash_Prelude.thy ===== *)
theory Dash_Prelude
  imports
    Complex_Main
    "HOL-Library.Char_ord"
    "HOL-Library.List_Lexorder"
    "HOL-Library.Sublist"
    "HOL-Library.Multiset"
begin

text \<open>
  Shared vocabulary of the dashboard development.

  \<^item> The types that stand for the values of the Python program: a float is a real number
    or NaN, a column is a list of cells that may be missing, a boolean mask is a list of
    booleans.
  \<^item> Two collections of facts: \<open>frame_defs\<close> (the unfoldings of the column operations)
    and \<open>frame_simps\<close> (their computation rules, which the component theories extend).
  \<^item> Lemmas on lists that more than one component needs: selection by a mask, sums and
    means of bounded lists, counting, and sorting by a key.

  Strings are compared as Python compares them: lexicographically by character code, a
  proper prefix first. That is the order \<open>HOL-Library.List_Lexorder\<close> and
  \<open>HOL-Library.Char_ord\<close> give to \<^typ>\<open>string\<close>.
\<close>

section \<open>Types of the model\<close>

type_synonym float64 = "real option"
  \<comment> \<open>a Python or numpy float: \<open>None\<close> is NaN; rounding of the arithmetic is not modelled\<close>

type_synonym 'a series = "'a option list"
  \<comment> \<open>a pandas column: \<open>None\<close> is a missing cell (NaN)\<close>

type_synonym mask = "bool list"
  \<comment> \<open>a boolean Series, as a comparison of a column yields\<close>

named_theorems frame_defs "definitions of the column operations, for unfolding"
named_theorems frame_simps "computation rules of the column operations"

section \<open>Selection by a mask\<close>

lemma zip_map_filter_snd:
  "map fst (filter snd (zip xs (map p xs))) = filter p xs"
  by (induction xs) auto

lemma length_filter_snd_zip_le:
  "length (filter snd (zip xs bs)) \<le> length xs"
proof -
  have "length (filter snd (zip xs bs)) \<le> length (zip xs bs)"
    by (rule length_filter_le)
  then show ?thesis by simp
qed

lemma map2_conj_map:
  "map2 (\<and>) (map p xs) (map q xs) = map (\<lambda>x. p x \<and> q x) xs"
  by (induction xs) auto

section \<open>Sums and means of bounded lists\<close>

lemma sum_list_ge_bound:
  fixes xs :: "real list"
  assumes "\<forall>x \<in> set xs. lo \<le> x"
  shows "lo * real (length xs) \<le> sum_list xs"
  using assms by (induction xs) (auto simp: algebra_simps)

lemma sum_list_le_bound:
  fixes xs :: "real list"
  assumes "\<forall>x \<in> set xs. x \<le> hi"
  shows "sum_list xs \<le> hi * real (length xs)"
  using assms by (induction xs) (auto simp: algebra_simps)

lemma mean_ge_bound:
  fixes xs :: "real list"
  assumes "xs \<noteq> []" and "\<forall>x \<in> set xs. lo \<le> x"
  shows "lo \<le> sum_list xs / real (length xs)"
proof -
  from assms(1) have pos: "0 < real (length xs)" by simp
  from assms(2) have "lo * real (length xs) \<le> sum_list xs"
    by (rule sum_list_ge_bound)
  with pos show ?thesis by (simp add: pos_le_divide_eq)
qed

lemma mean_le_bound:
  fixes xs :: "real list"
  assumes "xs \<noteq> []" and "\<forall>x \<in> set xs. x \<le> hi"
  shows "sum_list xs / real (length xs) \<le> hi"
proof -
  from assms(1) have pos: "0 < real (length xs)" by simp
  from assms(2) have "sum_list xs \<le> hi * real (length xs)"
    by (rule sum_list_le_bound)
  with pos show ?thesis by (simp add: pos_divide_le_eq)
qed

section \<open>Counting\<close>

lemma count_list_eq_length_filter:
  "count_list xs v = length (filter (\<lambda>x. x = v) xs)"
  by (induction xs) auto

lemma count_list_pos_iff [simp]:
  "0 < count_list xs v \<longleftrightarrow> v \<in> set xs"
  by (induction xs) auto

lemma sum_list_count_distinct:
  assumes "distinct ks" and "set xs \<subseteq> set ks"
  shows "sum_list (map (count_list xs) ks) = length xs"
proof -
  from assms(1) have "sum_list (map (count_list xs) ks) = sum (count_list xs) (set ks)"
    by (simp add: sum_list_distinct_conv_sum_set)
  also from assms(2) have "\<dots> = length xs"
    by (simp add: sum_count_set)
  finally show ?thesis .
qed

section \<open>A sum split by a key\<close>

lemma sum_list_indicator_notin:
  fixes a :: "'b :: comm_monoid_add"
  assumes "x \<notin> set ks"
  shows "sum_list (map (\<lambda>k. if x = k then a else 0) ks) = 0"
  using assms by (induction ks) auto

lemma sum_list_indicator_distinct:
  fixes a :: "'b :: comm_monoid_add"
  assumes "distinct ks" and "x \<in> set ks"
  shows "sum_list (map (\<lambda>k. if x = k then a else 0) ks) = a"
  using assms by (induction ks) (auto simp: sum_list_indicator_notin)

lemma sum_list_group_partition:
  fixes g :: "'r \<Rightarrow> 'b :: comm_monoid_add"
  assumes "distinct ks" and "key ` set rows \<subseteq> set ks"
  shows "sum_list (map (\<lambda>k. sum_list (map g (filter (\<lambda>r. key r = k) rows))) ks) =
         sum_list (map g rows)"
  using assms(2)
proof (induction rows)
  case Nil
  show ?case by (simp add: sum_list_0)
next
  case (Cons r rows)
  have "sum_list (map (\<lambda>k. sum_list (map g (filter (\<lambda>r. key r = k) (r # rows)))) ks) =
        sum_list (map (\<lambda>k. (if key r = k then g r else 0) +
                         sum_list (map g (filter (\<lambda>r. key r = k) rows))) ks)"
    by (rule arg_cong [where f = sum_list]) (rule map_cong, auto)
  also have "\<dots> = sum_list (map (\<lambda>k. if key r = k then g r else 0) ks) +
        sum_list (map (\<lambda>k. sum_list (map g (filter (\<lambda>r. key r = k) rows))) ks)"
    by (simp add: sum_list_addf)
  also have "\<dots> = g r + sum_list (map g rows)"
    using Cons assms(1) by (simp add: sum_list_indicator_distinct)
  finally show ?case by simp
qed

end
