(* ===== verification/Frame.thy ===== *)
theory Frame
  imports Dash_Prelude
begin

text \<open>
  The column operations of pandas that \<open>src/main.py\<close> calls, as functions on lists.

  A column (\<open>Series\<close>) is a list of optional cells, in row order; the program never
  reorders or relabels rows, so the position of a cell is its row. Each definition is
  the operation at the call site named in the map of the manifest:
  \<^item> \<open>dropna\<close>, \<open>unique\<close>: the options of the two multiselects;
  \<^item> \<open>isin\<close>, \<open>between\<close>, \<open>eq_mask\<close>, \<open>mask_and\<close>, \<open>select\<close>: the boolean masks of the
    filter and the selection of the rows where the mask holds;
  \<^item> \<open>series_min\<close>, \<open>series_max\<close>, \<open>series_mean\<close>, \<open>round2\<close>: the bounds of the slider and
    the average rating;
  \<^item> \<open>value_counts\<close>, \<open>groupby_mean\<close>: the tables behind the four charts.

  The lemmas give, for each operation, its length, its elements and its value on the
  empty column and on a column with missing cells; for \<open>unique\<close> also its order, by
  positions; for \<open>value_counts\<close> the descending order of the counts.
\<close>

section \<open>Missing cells\<close>

fun dropna :: "'a series \<Rightarrow> 'a list" where
  "dropna [] = []"
| "dropna (None # cs) = dropna cs"
| "dropna (Some v # cs) = v # dropna cs"

text \<open>
  \<open>Series.unique()\<close> scans the column with a hash table and keeps a value the first time
  it is seen; \<open>seen\<close> is the table.
\<close>

fun uniques_from :: "'a list \<Rightarrow> 'a list \<Rightarrow> 'a list" where
  "uniques_from seen [] = []"
| "uniques_from seen (x # xs) =
     (if x \<in> set seen then uniques_from seen xs else x # uniques_from (x # seen) xs)"

definition unique :: "'a list \<Rightarrow> 'a list" where
  "unique xs = uniques_from [] xs"

section \<open>Boolean masks\<close>

definition isin :: "'a series \<Rightarrow> 'a option list \<Rightarrow> mask" where
  "isin col vals = map (\<lambda>c. c \<in> set vals) col"

text \<open>Comparison of floats: false as soon as one side is NaN.\<close>

fun fle :: "float64 \<Rightarrow> float64 \<Rightarrow> bool" where
  "fle (Some x) (Some y) = (x \<le> y)"
| "fle _ _ = False"

definition mask_and :: "mask \<Rightarrow> mask \<Rightarrow> mask" where
  "mask_and a b = map2 (\<and>) a b"

text \<open>\<open>between(left, right)\<close> is \<open>(col >= left) & (col <= right)\<close>, both ends included.\<close>

definition between :: "float64 list \<Rightarrow> float64 \<Rightarrow> float64 \<Rightarrow> mask" where
  "between col left right =
     mask_and (map (\<lambda>c. fle left c) col) (map (\<lambda>c. fle c right) col)"

definition eq_mask :: "'a series \<Rightarrow> 'a \<Rightarrow> mask" where
  "eq_mask col v = map (\<lambda>c. c = Some v) col"

text \<open>\<open>df[mask]\<close>: the rows at which the mask is true, in their order.\<close>

definition select :: "'r list \<Rightarrow> mask \<Rightarrow> 'r list" where
  "select rows m = map fst (filter snd (zip rows m))"

section \<open>Reductions\<close>

text \<open>
  \<open>min\<close>, \<open>max\<close> and \<open>mean\<close> skip missing cells and are NaN when nothing is left.
\<close>

definition series_min :: "float64 list \<Rightarrow> float64" where
  "series_min col = (case dropna col of [] \<Rightarrow> None | v # vs \<Rightarrow> Some (Min (set (v # vs))))"

definition series_max :: "float64 list \<Rightarrow> float64" where
  "series_max col = (case dropna col of [] \<Rightarrow> None | v # vs \<Rightarrow> Some (Max (set (v # vs))))"

definition series_mean :: "float64 list \<Rightarrow> float64" where
  "series_mean col =
     (case dropna col of [] \<Rightarrow> None
      | v # vs \<Rightarrow> Some (sum_list (v # vs) / real (length (v # vs))))"

text \<open>
  \<open>round(x, 2)\<close>: the nearest multiple of one hundredth, a tie going to the even
  neighbour; NaN stays NaN.
\<close>

definition rint :: "real \<Rightarrow> int" where
  "rint x =
     (let f = \<lfloor>x\<rfloor>; d = x - of_int f in
      if d < 1 / 2 then f else if 1 / 2 < d then f + 1 else if even f then f else f + 1)"

definition round2 :: "float64 \<Rightarrow> float64" where
  "round2 x = map_option (\<lambda>v. of_int (rint (v * 100)) / 100) x"

section \<open>Tables of counts and of means\<close>

text \<open>
  \<open>value_counts()\<close> sorts the counts with \<open>sort_values(ascending=False)\<close>: the result is
  a rearrangement of the rows with the largest count first. The script does not ask for
  a stable sort, so pandas does not fix the order of rows with equal counts. The
  definition has to pick one (it keeps such rows in their order); the lemmas and
  theorems use only that the result is a permutation sorted by descending count
  (\<open>sort_values_desc_mset\<close>, \<open>sorted_sort_values_desc\<close>) and state nothing about ties.
\<close>

definition sort_values_desc :: "('a \<times> nat) list \<Rightarrow> ('a \<times> nat) list" where
  "sort_values_desc ps = rev (sort_key snd (rev ps))"

definition value_counts :: "'a series \<Rightarrow> ('a \<times> nat) list" where
  "value_counts col =
     (let vs = dropna col in sort_values_desc (map (\<lambda>v. (v, count_list vs v)) (unique vs)))"

text \<open>
  \<open>groupby(key)[val].mean()\<close>: one row per key that occurs, keys ascending, rows with a
  missing key left out.
\<close>

definition groupby_mean :: "'k :: linorder series \<Rightarrow> float64 list \<Rightarrow> ('k \<times> float64) list" where
  "groupby_mean keys vals =
     map (\<lambda>k. (k, series_mean (select vals (eq_mask keys k)))) (sort (unique (dropna keys)))"

lemmas [frame_defs] =
  isin_def mask_and_def between_def eq_mask_def select_def
  series_min_def series_max_def series_mean_def round2_def
  sort_values_desc_def value_counts_def groupby_mean_def unique_def

section \<open>Lemmas: missing cells and distinct values\<close>

lemma dropna_conv_filter: "dropna cs = map the (filter (\<lambda>c. c \<noteq> None) cs)"
  by (induction cs rule: dropna.induct) auto

lemma set_dropna [frame_simps]: "set (dropna cs) = {v. Some v \<in> set cs}"
  by (induction cs rule: dropna.induct) auto

lemma dropna_map_Some [frame_simps]: "dropna (map Some vs) = vs"
  by (induction vs) auto

lemma dropna_append [frame_simps]: "dropna (cs @ ds) = dropna cs @ dropna ds"
  by (induction cs rule: dropna.induct) auto

lemma length_dropna_le: "length (dropna cs) \<le> length cs"
  by (induction cs rule: dropna.induct) auto

lemma dropna_filter_map:
  "dropna (map f (filter P rows)) = dropna (map f (filter (\<lambda>r. P r \<and> f r \<noteq> None) rows))"
  by (induction rows) (auto split: option.splits)

lemma dropna_Nil_iff: "dropna cs = [] \<longleftrightarrow> (\<forall>c \<in> set cs. c = None)"
  by (induction cs rule: dropna.induct) auto

lemma count_list_dropna_map:
  "count_list (dropna (map f rows)) k = length (filter (\<lambda>r. f r = Some k) rows)"
proof (induction rows)
  case Nil
  show ?case by simp
next
  case (Cons r rows)
  then show ?case by (cases "f r") auto
qed

lemma dropna_column_complete:
  "list_all (\<lambda>r. f r \<noteq> None) rows \<Longrightarrow> length (dropna (map f rows)) = length rows"
  by (induction rows) auto

lemma dropna_column_missing:
  "length (dropna (map f rows)) + length (filter (\<lambda>r. f r = None) rows) = length rows"
  by (induction rows) auto

lemma sum_list_dropna_map:
  "sum_list (dropna (map f rows)) = sum_list (map (\<lambda>r. case f r of None \<Rightarrow> 0 | Some x \<Rightarrow> x) rows)"
  for f :: "'r \<Rightarrow> real option"
proof (induction rows)
  case Nil
  show ?case by simp
next
  case (Cons r rows)
  then show ?case by (cases "f r") auto
qed

lemma subseq_dropna: "subseq (map Some (dropna cs)) cs"
  by (induction cs rule: dropna.induct) auto

lemma set_Some_dropna: "Some ` set (dropna cs) = set cs - {None}"
  by (induction cs rule: dropna.induct) auto

lemma map_Some_dropna:
  "list_all (\<lambda>r. f r \<noteq> None) rows \<Longrightarrow> map Some (dropna (map f rows)) = map f rows"
  by (induction rows) auto

lemma set_uniques_from: "set (uniques_from seen xs) = set xs - set seen"
  by (induction seen xs rule: uniques_from.induct) auto

lemma distinct_uniques_from: "distinct (uniques_from seen xs)"
  by (induction seen xs rule: uniques_from.induct) (auto simp: set_uniques_from)

lemma uniques_from_conv_filter:
  "uniques_from seen xs = filter (\<lambda>x. x \<notin> set seen) (uniques_from [] xs)"
proof (induction xs arbitrary: seen)
  case Nil
  show ?case by simp
next
  case (Cons x xs)
  have tail: "uniques_from (x # s) xs =
      filter (\<lambda>y. y \<noteq> x \<and> y \<notin> set s) (uniques_from [] xs)" for s
    using Cons.IH [of "x # s"] by simp
  show ?case
  proof (cases "x \<in> set seen")
    case True
    then have "(y \<noteq> x \<and> y \<notin> set seen) = (y \<notin> set seen)" for y by auto
    with True show ?thesis by (simp add: tail [of "[]"] Cons.IH [of seen])
  next
    case False
    then show ?thesis by (simp add: tail [of seen] tail [of "[]"] conj_commute)
  qed
qed

lemma set_unique [frame_simps]: "set (unique xs) = set xs"
  by (simp add: unique_def set_uniques_from)

lemma distinct_unique [frame_simps]: "distinct (unique xs)"
  by (simp add: unique_def distinct_uniques_from)

lemma unique_Nil [frame_simps]: "unique [] = []"
  by (simp add: unique_def)

lemma unique_Cons: "unique (x # xs) = x # filter (\<lambda>y. y \<noteq> x) (unique xs)"
  by (simp add: unique_def uniques_from_conv_filter [of "[x]"])

lemma subseq_unique: "subseq (unique xs) xs"
proof (induction xs)
  case Nil
  show ?case by (simp add: unique_Nil)
next
  case (Cons x xs)
  have "subseq (filter (\<lambda>y. y \<noteq> x) (unique xs)) (unique xs)"
    by (rule subseq_filter_left)
  then have "subseq (filter (\<lambda>y. y \<noteq> x) (unique xs)) xs"
    using Cons.IH by (rule subseq_order.trans)
  then show ?case by (simp add: unique_Cons)
qed

lemma unique_distinct: "distinct xs \<Longrightarrow> unique xs = xs"
  by (induction xs) (auto simp: unique_Nil unique_Cons set_unique filter_id_conv)

lemma unique_idem [frame_simps]: "unique (unique xs) = unique xs"
  by (simp add: unique_distinct distinct_unique)

lemma unique_snoc: "unique (xs @ [x]) = unique xs @ (if x \<in> set xs then [] else [x])"
  by (induction xs) (auto simp: unique_Nil unique_Cons set_unique)

text \<open>
  The distinct values of a column by positions: the cells that are present and whose
  value occurs at no earlier position, in the order of the positions.
\<close>

lemma unique_first_positions:
  "unique (dropna col) =
   map (\<lambda>i. the (col ! i))
     (filter (\<lambda>i. col ! i \<noteq> None \<and> col ! i \<notin> set (take i col)) [0..<length col])"
proof (induction col rule: rev_induct)
  case Nil
  show ?case by (simp add: unique_Nil)
next
  case (snoc c col)
  let ?P = "\<lambda>cs i. cs ! i \<noteq> None \<and> cs ! i \<notin> set (take i cs)"
  have old: "filter (?P (col @ [c])) [0..<length col] = filter (?P col) [0..<length col]"
    by (rule filter_cong) (auto simp: nth_append)
  have vals: "map (\<lambda>i. the ((col @ [c]) ! i)) (filter (?P col) [0..<length col]) =
      map (\<lambda>i. the (col ! i)) (filter (?P col) [0..<length col])"
    by (rule map_cong) (auto simp: nth_append)
  show ?case
  proof (cases c)
    case None
    with snoc old vals show ?thesis by (simp add: dropna_append)
  next
    case (Some v)
    with snoc old vals show ?thesis
      by (simp add: dropna_append unique_snoc set_dropna)
  qed
qed

lemma unique_column_positions:
  "unique (dropna (map f rows)) =
   map (\<lambda>i. the (f (rows ! i)))
     (filter (\<lambda>i. f (rows ! i) \<noteq> None \<and> f (rows ! i) \<notin> f ` set (take i rows))
        [0..<length rows])"
proof -
  let ?col = "map f rows"
  let ?new = "\<lambda>i. f (rows ! i) \<noteq> None \<and> f (rows ! i) \<notin> f ` set (take i rows)"
  have "filter (\<lambda>i. ?col ! i \<noteq> None \<and> ?col ! i \<notin> set (take i ?col)) [0..<length ?col] =
      filter ?new [0..<length rows]"
    by (rule filter_cong) (auto simp: take_map)
  moreover have "map (\<lambda>i. the (?col ! i)) (filter ?new [0..<length rows]) =
      map (\<lambda>i. the (f (rows ! i))) (filter ?new [0..<length rows])"
    by (rule map_cong) auto
  ultimately show ?thesis by (simp add: unique_first_positions [of ?col])
qed

section \<open>Lemmas: masks and selection\<close>

lemma fle_iff: "fle a b \<longleftrightarrow> (\<exists>x y. a = Some x \<and> b = Some y \<and> x \<le> y)"
  by (cases a; cases b) auto

lemma fle_None [simp]: "\<not> fle None b" "\<not> fle a None"
  by (simp_all add: fle_iff)

lemma fle_trans: "fle a b \<Longrightarrow> fle b c \<Longrightarrow> fle a c"
  by (auto simp: fle_iff)

lemma fle_refl_iff: "fle a a \<longleftrightarrow> a \<noteq> None"
  by (cases a) auto

lemma length_isin [simp]: "length (isin col vals) = length col"
  by (simp add: isin_def)

lemma length_between [simp]: "length (between col lo hi) = length col"
  by (simp add: between_def mask_and_def)

lemma length_eq_mask [simp]: "length (eq_mask col v) = length col"
  by (simp add: eq_mask_def)

lemma length_mask_and [simp]: "length (mask_and a b) = min (length a) (length b)"
  by (simp add: mask_and_def)

lemma isin_map [frame_simps]: "isin (map f rows) vals = map (\<lambda>r. f r \<in> set vals) rows"
  by (simp add: isin_def)

lemma between_map [frame_simps]:
  "between (map f rows) lo hi = map (\<lambda>r. fle lo (f r) \<and> fle (f r) hi) rows"
  by (simp add: between_def mask_and_def map2_conj_map)

lemma eq_mask_map [frame_simps]: "eq_mask (map f rows) v = map (\<lambda>r. f r = Some v) rows"
  by (simp add: eq_mask_def)

lemma mask_and_map [frame_simps]:
  "mask_and (map p rows) (map q rows) = map (\<lambda>r. p r \<and> q r) rows"
  by (simp add: mask_and_def map2_conj_map)

lemma select_map [frame_simps]: "select rows (map p rows) = filter p rows"
  by (simp add: select_def zip_map_filter_snd)

lemma select_map_map [frame_simps]:
  "select (map f rows) (map p rows) = map f (filter p rows)"
  by (induction rows) (auto simp: select_def)

lemma select_Nil [simp]: "select [] m = []" "select rows [] = []"
  by (simp_all add: select_def)

lemma length_select_le: "length (select rows m) \<le> length rows"
  by (simp add: select_def length_filter_snd_zip_le)

lemma set_select_subset: "set (select rows m) \<subseteq> set rows"
  by (auto simp: select_def dest: set_zip_leftD)

lemma subseq_select: "subseq (select rows m) rows"
proof (induction rows arbitrary: m)
  case Nil
  show ?case by simp
next
  case (Cons r rows)
  show ?case
  proof (cases m)
    case Nil
    then show ?thesis by simp
  next
    case (Cons b bs)
    have "subseq (select rows bs) rows" by (rule Cons.IH)
    with Cons show ?thesis by (cases b) (auto simp: select_def)
  qed
qed

section \<open>Lemmas: minimum, maximum and mean\<close>

lemma series_min_None_iff: "series_min col = None \<longleftrightarrow> dropna col = []"
  by (simp add: series_min_def split: list.splits)

lemma series_max_None_iff: "series_max col = None \<longleftrightarrow> dropna col = []"
  by (simp add: series_max_def split: list.splits)

lemma series_mean_None_iff: "series_mean col = None \<longleftrightarrow> dropna col = []"
  by (simp add: series_mean_def split: list.splits)

lemma series_min_eq: "dropna col \<noteq> [] \<Longrightarrow> series_min col = Some (Min (set (dropna col)))"
  by (simp add: series_min_def split: list.splits)

lemma series_max_eq: "dropna col \<noteq> [] \<Longrightarrow> series_max col = Some (Max (set (dropna col)))"
  by (simp add: series_max_def split: list.splits)

lemma series_mean_eq:
  "dropna col \<noteq> [] \<Longrightarrow>
   series_mean col = Some (sum_list (dropna col) / real (length (dropna col)))"
  by (simp add: series_mean_def split: list.splits)

lemma series_min_le:
  assumes "Some v \<in> set col"
  shows "fle (series_min col) (Some v)"
proof -
  from assms have v: "v \<in> set (dropna col)" by (simp add: set_dropna)
  then have "dropna col \<noteq> []" by auto
  then have "series_min col = Some (Min (set (dropna col)))" by (rule series_min_eq)
  moreover from v have "Min (set (dropna col)) \<le> v" by simp
  ultimately show ?thesis by simp
qed

lemma series_max_ge:
  assumes "Some v \<in> set col"
  shows "fle (Some v) (series_max col)"
proof -
  from assms have v: "v \<in> set (dropna col)" by (simp add: set_dropna)
  then have "dropna col \<noteq> []" by auto
  then have "series_max col = Some (Max (set (dropna col)))" by (rule series_max_eq)
  moreover from v have "v \<le> Max (set (dropna col))" by simp
  ultimately show ?thesis by simp
qed

lemma series_min_in: "series_min col = Some m \<Longrightarrow> Some m \<in> set col"
proof -
  assume m: "series_min col = Some m"
  then have ne: "dropna col \<noteq> []" by (auto simp: series_min_None_iff [symmetric])
  then have "Min (set (dropna col)) \<in> set (dropna col)" by (intro Min_in) auto
  with m ne show ?thesis by (simp add: series_min_eq set_dropna)
qed

lemma series_max_in: "series_max col = Some m \<Longrightarrow> Some m \<in> set col"
proof -
  assume m: "series_max col = Some m"
  then have ne: "dropna col \<noteq> []" by (auto simp: series_max_None_iff [symmetric])
  then have "Max (set (dropna col)) \<in> set (dropna col)" by (intro Max_in) auto
  with m ne show ?thesis by (simp add: series_max_eq set_dropna)
qed

lemma series_mean_ge:
  assumes "series_mean col = Some m" and "\<forall>c \<in> set col. c = None \<or> fle lo c"
  shows "fle lo (Some m)"
proof -
  from assms(1) have ne: "dropna col \<noteq> []" by (auto simp: series_mean_None_iff [symmetric])
  then obtain v where "v \<in> set (dropna col)" by (cases "dropna col") auto
  with assms(2) obtain l where l: "lo = Some l" by (auto simp: set_dropna fle_iff)
  with assms(2) have "\<forall>x \<in> set (dropna col). l \<le> x" by (auto simp: set_dropna)
  with ne have "l \<le> sum_list (dropna col) / real (length (dropna col))" by (rule mean_ge_bound)
  with assms(1) ne l show ?thesis by (simp add: series_mean_eq)
qed

lemma series_mean_le:
  assumes "series_mean col = Some m" and "\<forall>c \<in> set col. c = None \<or> fle c hi"
  shows "fle (Some m) hi"
proof -
  from assms(1) have ne: "dropna col \<noteq> []" by (auto simp: series_mean_None_iff [symmetric])
  then obtain v where "v \<in> set (dropna col)" by (cases "dropna col") auto
  with assms(2) obtain h where h: "hi = Some h" by (auto simp: set_dropna fle_iff)
  with assms(2) have "\<forall>x \<in> set (dropna col). x \<le> h" by (auto simp: set_dropna)
  with ne have "sum_list (dropna col) / real (length (dropna col)) \<le> h" by (rule mean_le_bound)
  with assms(1) ne h show ?thesis by (simp add: series_mean_eq)
qed

lemma series_mean_times_length:
  "(case series_mean col of None \<Rightarrow> 0 | Some a \<Rightarrow> a * real (length (dropna col))) =
   sum_list (dropna col)"
  by (cases "dropna col") (simp_all add: series_mean_def)

section \<open>Lemmas: rounding\<close>

lemma rint_of_int [simp]: "rint (of_int n) = n"
  by (simp add: rint_def)

lemma rint_cases:
  "rint x = \<lfloor>x\<rfloor> \<or> rint x = \<lfloor>x\<rfloor> + 1"
  by (simp add: rint_def Let_def)

lemma rint_error: "\<bar>of_int (rint x) - x\<bar> \<le> 1 / 2"
  unfolding rint_def Let_def by (auto simp: abs_if) linarith+

lemma rint_lower: 
  assumes "of_int n \<le> x" shows "n \<le> rint x"
proof -
  from assms have "n \<le> \<lfloor>x\<rfloor>" by (simp add: le_floor_iff)
  with rint_cases [of x] show ?thesis by auto
qed

lemma rint_upper:
  assumes "x \<le> of_int n" shows "rint x \<le> n"
proof (cases "x = of_int n")
  case True
  then show ?thesis by simp
next
  case False
  with assms have "x < of_int n" by simp
  then have "\<lfloor>x\<rfloor> < n" by (simp add: floor_less_iff)
  with rint_cases [of x] show ?thesis by auto
qed

lemma rint_mono:
  assumes "x \<le> y" shows "rint x \<le> rint y"
proof (cases "\<lfloor>x\<rfloor> = \<lfloor>y\<rfloor>")
  case True
  with assms have "x - of_int \<lfloor>x\<rfloor> \<le> y - of_int \<lfloor>y\<rfloor>" by simp
  with True show ?thesis unfolding rint_def Let_def by auto
next
  case False
  from assms have "\<lfloor>x\<rfloor> \<le> \<lfloor>y\<rfloor>" by (rule floor_mono)
  with False have "\<lfloor>x\<rfloor> + 1 \<le> \<lfloor>y\<rfloor>" by simp
  with rint_cases [of x] rint_cases [of y] show ?thesis by auto
qed

lemma round2_None [simp]: "round2 None = None"
  by (simp add: round2_def)

lemma round2_None_iff [simp]: "round2 x = None \<longleftrightarrow> x = None"
  by (simp add: round2_def)

lemma round2_error:
  assumes "round2 (Some v) = Some r" shows "\<bar>r - v\<bar> \<le> 1 / 200"
proof -
  define k where "k = rint (v * 100)"
  from assms have r: "r = of_int k / 100" by (auto simp: round2_def k_def)
  have "\<bar>of_int k - v * 100\<bar> \<le> 1 / 2" unfolding k_def by (rule rint_error)
  then have "\<bar>of_int k / 100 - v\<bar> \<le> 1 / 200" by linarith
  with r show ?thesis by linarith
qed

lemma round2_idem: "round2 (round2 x) = round2 x"
  by (cases x) (simp_all add: round2_def)

lemma round2_mono:
  assumes "fle x y" shows "fle (round2 x) (round2 y)"
proof -
  from assms obtain a b where ab: "x = Some a" "y = Some b" "a \<le> b" by (auto simp: fle_iff)
  then have "rint (a * 100) \<le> rint (b * 100)" by (intro rint_mono) simp
  with ab show ?thesis by (simp add: round2_def divide_right_mono)
qed

lemma round2_hundredth: "round2 (Some (of_int n / 100)) = Some (of_int n / 100)"
  by (simp add: round2_def)

section \<open>Lemmas: the table of counts\<close>

lemma sort_values_desc_mset [simp]: "mset (sort_values_desc ps) = mset ps"
  by (simp add: sort_values_desc_def)

lemma set_sort_values_desc [simp]: "set (sort_values_desc ps) = set ps"
  by (simp add: sort_values_desc_def)

lemma length_sort_values_desc [simp]: "length (sort_values_desc ps) = length ps"
  by (simp add: sort_values_desc_def)

lemma sorted_sort_values_desc: "sorted (rev (map snd (sort_values_desc ps)))"
  by (simp add: sort_values_desc_def rev_map)

lemma map_fst_sort_values_desc_mset:
  "mset (map fst (sort_values_desc ps)) = mset (map fst ps)"
  by (metis mset_map sort_values_desc_mset)

lemma distinct_map_fst_sort_values_desc:
  "distinct (map fst (sort_values_desc ps)) = distinct (map fst ps)"
  by (rule mset_eq_imp_distinct_iff) (rule map_fst_sort_values_desc_mset)

lemma sum_list_snd_sort_values_desc:
  "sum_list (map snd (sort_values_desc ps)) = sum_list (map snd ps)"
proof -
  have "mset (map snd (sort_values_desc ps)) = mset (map snd ps)"
    by (metis mset_map sort_values_desc_mset)
  then show ?thesis by (metis sum_mset_sum_list)
qed


lemma value_counts_unfold:
  "value_counts col =
   sort_values_desc (map (\<lambda>v. (v, count_list (dropna col) v)) (unique (dropna col)))"
  by (simp add: value_counts_def Let_def)

lemma value_counts_mset:
  "mset (value_counts col) =
   mset (map (\<lambda>v. (v, count_list (dropna col) v)) (unique (dropna col)))"
  by (simp add: value_counts_unfold)

lemma set_value_counts:
  "set (value_counts col) = (\<lambda>v. (v, count_list (dropna col) v)) ` set (dropna col)"
  by (simp add: value_counts_unfold set_unique)

lemma value_counts_iff:
  "(k, n) \<in> set (value_counts col) \<longleftrightarrow> k \<in> set (dropna col) \<and> n = count_list (dropna col) k"
  by (auto simp: set_value_counts)

lemma value_counts_pos: "(k, n) \<in> set (value_counts col) \<Longrightarrow> 0 < n"
  by (simp add: value_counts_iff)

lemma map_fst_value_counts_mset:
  "mset (map fst (value_counts col)) = mset (unique (dropna col))"
proof -
  have "map fst (map (\<lambda>v. (v, count_list (dropna col) v)) (unique (dropna col))) =
        unique (dropna col)"
    by (simp add: comp_def)
  then show ?thesis
    by (metis value_counts_unfold map_fst_sort_values_desc_mset)
qed

lemma sort_fst_value_counts:
  "sort (map fst (value_counts col)) = sort (unique (dropna col))"
  using map_fst_value_counts_mset [of col] by (metis properties_for_sort sorted_sort mset_sort)

lemma distinct_fst_value_counts: "distinct (map fst (value_counts col))"
  by (simp add: value_counts_unfold distinct_map_fst_sort_values_desc comp_def distinct_unique)

lemma set_fst_value_counts: "fst ` set (value_counts col) = set (dropna col)"
  by (force simp: set_value_counts)

lemma length_value_counts: "length (value_counts col) = card (set (dropna col))"
proof -
  have "length (value_counts col) = length (unique (dropna col))"
    by (simp add: value_counts_unfold)
  also have "\<dots> = card (set (unique (dropna col)))"
    by (simp add: distinct_card distinct_unique)
  finally show ?thesis by (simp add: set_unique)
qed

lemma sum_value_counts: "sum_list (map snd (value_counts col)) = length (dropna col)"
proof -
  have "sum_list (map snd (value_counts col)) =
        sum_list (map (count_list (dropna col)) (unique (dropna col)))"
    by (simp add: value_counts_unfold sum_list_snd_sort_values_desc comp_def)
  also have "\<dots> = length (dropna col)"
    by (rule sum_list_count_distinct) (simp_all add: distinct_unique set_unique)
  finally show ?thesis .
qed

lemma sorted_value_counts: "sorted (rev (map snd (value_counts col)))"
  by (simp add: value_counts_unfold sorted_sort_values_desc)

lemma value_counts_head_max:
  assumes "value_counts col = (k, n) # rest" and "(k', n') \<in> set (value_counts col)"
  shows "n' \<le> n"
proof -
  have "sorted (rev (map snd ((k, n) # rest)))"
    using sorted_value_counts [of col] assms(1) by simp
  then have "\<forall>m \<in> set (map snd rest). m \<le> n"
    by (auto simp: sorted_append)
  with assms show ?thesis by auto
qed

lemma value_counts_Nil_iff: "value_counts col = [] \<longleftrightarrow> dropna col = []"
  by (metis length_0_conv length_value_counts card_0_eq List.finite_set set_empty)

lemma map_of_value_counts:
  "map_of (value_counts col) k =
   (if k \<in> set (dropna col) then Some (count_list (dropna col) k) else None)"
proof (cases "k \<in> set (dropna col)")
  case True
  then have "(k, count_list (dropna col) k) \<in> set (value_counts col)"
    by (simp add: value_counts_iff)
  with True show ?thesis by (simp add: distinct_fst_value_counts)
next
  case False
  then have "k \<notin> fst ` set (value_counts col)" by (simp add: set_fst_value_counts)
  with False show ?thesis by (simp add: map_of_eq_None_iff)
qed

lemma value_counts_column_iff:
  "(k, n) \<in> set (value_counts (map f rows)) \<longleftrightarrow>
   0 < n \<and> n = length (filter (\<lambda>r. f r = Some k) rows)"
proof -
  have "k \<in> set (dropna (map f rows)) \<longleftrightarrow> 0 < length (filter (\<lambda>r. f r = Some k) rows)"
    by (simp add: count_list_dropna_map [symmetric])
  then show ?thesis by (auto simp: value_counts_iff count_list_dropna_map)
qed

lemma sum_value_counts_column:
  "sum_list (map snd (value_counts (map f rows))) + length (filter (\<lambda>r. f r = None) rows) =
   length rows"
  by (simp add: sum_value_counts dropna_column_missing)

section \<open>Lemmas: the table of group means\<close>

lemma map_fst_groupby_mean: "map fst (groupby_mean keys vals) = sort (unique (dropna keys))"
  by (simp add: groupby_mean_def comp_def)

lemma sorted_groupby_keys: "sorted_wrt (<) (map fst (groupby_mean keys vals))"
  by (simp add: map_fst_groupby_mean strict_sorted_iff distinct_unique)

lemma set_groupby_keys: "fst ` set (groupby_mean keys vals) = set (dropna keys)"
proof -
  have "fst ` set (groupby_mean keys vals) = set (map fst (groupby_mean keys vals))" by simp
  also have "\<dots> = set (dropna keys)" by (simp only: map_fst_groupby_mean) (simp add: set_unique)
  finally show ?thesis .
qed

lemma groupby_mean_rows:
  "groupby_mean (map key rows) (map val rows) =
   map (\<lambda>k. (k, series_mean (map val (filter (\<lambda>r. key r = Some k) rows))))
     (sort (unique (dropna (map key rows))))"
  by (simp add: groupby_mean_def eq_mask_map select_map_map)

lemma groupby_mean_iff:
  "(k, m) \<in> set (groupby_mean (map key rows) (map val rows)) \<longleftrightarrow>
   Some k \<in> key ` set rows \<and> m = series_mean (map val (filter (\<lambda>r. key r = Some k) rows))"
  by (auto simp: groupby_mean_rows set_unique set_dropna)

end
