(* ===== verification/Loader.thy ===== *)
theory Loader
  imports Frame
begin

text \<open>
  The data the dashboard works on and how it is loaded (\<open>load_data\<close> in \<open>src/main.py\<close>).

  \<^item> \<open>employee\<close> is one row of the table: the five columns the script reads, by their
    names in the file (a blank in a column name is written \<open>_\<close>). A cell is \<open>None\<close> when
    the file has no value there. The record is extensible: the other columns of the
    file are the \<open>more\<close> part, which no operation of the script reads.
  \<^item> \<open>dataframe\<close> is the list of the rows in file order; \<open>table\<close> is what \<open>read_csv\<close>
    returns: the rows and the names of the columns the file has. \<open>read_csv\<close> does not
    look for particular columns; a column the file lacks is noticed when the script
    first subscripts the table with its name (\<open>has_col\<close>, \<open>required_columns\<close>), and the
    field of such a column in a row is read by no definition.
  \<^item> \<open>load_data\<close> is the cached loader. Reading the file is the one effect of the
    program that depends on the outside world; the file system is a parameter
    (\<open>disk\<close>) that says what \<open>read_csv\<close> returns for a path, and the cache of
    \<open>st.cache_data\<close> is passed in and returned.
\<close>

section \<open>Rows and tables\<close>

record employee =
  DepartmentType :: "string option"
  EmployeeStatus :: "string option"
  EmployeeType :: "string option"
  Current_Employee_Rating :: float64
  Performance_Score :: "string option"

type_synonym 'a dataframe = "'a employee_scheme list"

record 'a table =
  column_names :: "string list"
  records :: "'a dataframe"

text \<open>The names the script subscripts the table with, in the order of their first use.\<close>

definition col_department :: string where
  "col_department = ''DepartmentType''"

definition col_status :: string where
  "col_status = ''EmployeeStatus''"

definition col_rating :: string where
  "col_rating = ''Current Employee Rating''"

definition col_score :: string where
  "col_score = ''Performance Score''"

definition col_type :: string where
  "col_type = ''EmployeeType''"

definition required_columns :: "string list" where
  "required_columns = [col_department, col_status, col_rating, col_score, col_type]"

text \<open>\<open>df[c]\<close> raises \<open>KeyError\<close> unless the table has a column of that name.\<close>

definition has_col :: "'a table \<Rightarrow> string \<Rightarrow> bool" where
  "has_col df c \<longleftrightarrow> c \<in> set (column_names df)"

lemmas column_defs =
  col_department_def col_status_def col_rating_def col_score_def col_type_def
  required_columns_def has_col_def

text \<open>
  Two small tables for the closed instances of the theorems: the five employees of the
  scenario in the specification, and the same table with three more rows that each miss
  one of the filtered cells.
\<close>

definition scenario_df :: "employee list" where
  "scenario_df =
     [\<lparr>DepartmentType = Some ''Sales'', EmployeeStatus = Some ''Active'',
        EmployeeType = Some ''Full-Time'', Current_Employee_Rating = Some 2,
        Performance_Score = Some ''Fully Meets''\<rparr>,
      \<lparr>DepartmentType = Some ''Sales'', EmployeeStatus = Some ''Active'',
        EmployeeType = Some ''Part-Time'', Current_Employee_Rating = Some 3,
        Performance_Score = Some ''Exceeds''\<rparr>,
      \<lparr>DepartmentType = Some ''Sales'', EmployeeStatus = Some ''Terminated'',
        EmployeeType = Some ''Full-Time'', Current_Employee_Rating = Some 4,
        Performance_Score = Some ''Fully Meets''\<rparr>,
      \<lparr>DepartmentType = Some ''Eng'', EmployeeStatus = Some ''Active'',
        EmployeeType = Some ''Contract'', Current_Employee_Rating = Some 5,
        Performance_Score = Some ''Exceeds''\<rparr>,
      \<lparr>DepartmentType = Some ''Eng'', EmployeeStatus = Some ''Terminated'',
        EmployeeType = Some ''Full-Time'', Current_Employee_Rating = Some 1,
        Performance_Score = None\<rparr>]"

definition gappy_df :: "employee list" where
  "gappy_df = scenario_df @
     [\<lparr>DepartmentType = None, EmployeeStatus = Some ''Active'',
        EmployeeType = Some ''Full-Time'', Current_Employee_Rating = Some 3,
        Performance_Score = Some ''Exceeds''\<rparr>,
      \<lparr>DepartmentType = Some ''Sales'', EmployeeStatus = None,
        EmployeeType = None, Current_Employee_Rating = Some 4,
        Performance_Score = Some ''Exceeds''\<rparr>,
      \<lparr>DepartmentType = Some ''Eng'', EmployeeStatus = Some ''Active'',
        EmployeeType = Some ''Full-Time'', Current_Employee_Rating = None,
        Performance_Score = Some ''Fully Meets''\<rparr>]"

text \<open>
  The tables read from files with these rows: with every column, and from a file that
  has no column of performance scores.
\<close>

definition scenario_table :: "unit table" where
  "scenario_table = \<lparr>column_names = required_columns, records = scenario_df\<rparr>"

definition gappy_table :: "unit table" where
  "gappy_table = \<lparr>column_names = required_columns, records = gappy_df\<rparr>"

definition no_score_table :: "unit table" where
  "no_score_table =
     \<lparr>column_names = [col_department, col_status, col_type, col_rating], records = scenario_df\<rparr>"

section \<open>The cached loader\<close>

datatype load_error = FileNotFound | EmptyData | ParserError

type_synonym 'a disk = "string \<Rightarrow> load_error + 'a table"

type_synonym 'a cache = "'a table option"

definition csv_path :: string where
  "csv_path = ''employee_data.csv''"

text \<open>
  A call with a filled cache returns the stored table and does not touch the disk; a
  call with an empty cache reads the file and stores the table if reading succeeded.
  An exception of \<open>read_csv\<close> leaves the cache empty.
\<close>

definition load_data :: "'a disk \<Rightarrow> 'a cache \<Rightarrow> (load_error + 'a table) \<times> 'a cache" where
  "load_data disk cache =
     (case cache of
        Some df \<Rightarrow> (Inr df, cache)
      | None \<Rightarrow>
          (case disk csv_path of
             Inl e \<Rightarrow> (Inl e, None)
           | Inr df \<Rightarrow> (Inr df, Some df)))"

text \<open>The cache is consistent with a disk when it holds nothing or a table read from it.\<close>

definition cache_of :: "'a disk \<Rightarrow> 'a cache \<Rightarrow> bool" where
  "cache_of disk cache = (case cache of None \<Rightarrow> True | Some df \<Rightarrow> disk csv_path = Inr df)"

section \<open>Lemmas\<close>

lemma load_data_cached [simp]: "load_data disk (Some df) = (Inr df, Some df)"
  by (simp add: load_data_def)

lemma load_data_miss_ok:
  "disk csv_path = Inr df \<Longrightarrow> load_data disk None = (Inr df, Some df)"
  by (simp add: load_data_def)

lemma load_data_miss_error:
  "disk csv_path = Inl e \<Longrightarrow> load_data disk None = (Inl e, None)"
  by (simp add: load_data_def)

lemma load_data_result_cache:
  "load_data disk cache = (res, cache') \<Longrightarrow>
   (case res of Inl e \<Rightarrow> cache' = None | Inr df \<Rightarrow> cache' = Some df)"
  by (auto simp: load_data_def split: option.splits sum.splits)

lemma load_data_ok_iff:
  "fst (load_data disk cache) = Inr df \<longleftrightarrow>
   cache = Some df \<or> (cache = None \<and> disk csv_path = Inr df)"
  by (auto simp: load_data_def split: option.splits sum.splits)

lemma load_data_error_iff:
  "fst (load_data disk cache) = Inl e \<longleftrightarrow> cache = None \<and> disk csv_path = Inl e"
  by (auto simp: load_data_def split: option.splits sum.splits)

lemma cache_of_load_data:
  "cache_of disk cache \<Longrightarrow> cache_of disk (snd (load_data disk cache))"
  by (auto simp: cache_of_def load_data_def split: option.splits sum.splits)

lemma cache_of_None [simp]: "cache_of disk None"
  by (simp add: cache_of_def)

section \<open>Theorems\<close>

text \<open>
  Claim C12. After a call of the loader that returned a table, every later call returns
  the same table and leaves the cache as it is, whatever the disk holds by then: the
  file is read once.
\<close>

theorem load_data_memoized:
  assumes "load_data disk cache = (Inr df, cache')"
  shows "load_data disk' cache' = (Inr df, cache')"
proof -
  from assms have "cache' = Some df"
    by (auto dest: load_data_result_cache)
  then show ?thesis by simp
qed

theorem load_data_memoized_witness:
  "load_data (\<lambda>_. Inl FileNotFound) (Some scenario_table) =
     (Inr scenario_table, Some scenario_table) \<and>
   load_data (\<lambda>_. Inr gappy_table) (Some scenario_table) =
     (Inr scenario_table, Some scenario_table)"
proof -
  have first: "load_data (\<lambda>_. Inr scenario_table) None = (Inr scenario_table, Some scenario_table)"
    by (simp add: load_data_def)
  show ?thesis
    using load_data_memoized [OF first, of "\<lambda>_. Inl FileNotFound"]
      load_data_memoized [OF first, of "\<lambda>_. Inr gappy_table"]
    by simp
qed

text \<open>
  Claim C33. A call of the loader that failed has cached nothing: it was a call on an
  empty cache, the cache is still empty, and the next call reads the disk again.
\<close>

theorem load_data_failure_not_cached:
  assumes "load_data disk cache = (Inl e, cache')"
  shows "cache = None \<and> cache' = None \<and> disk csv_path = Inl e \<and>
         fst (load_data disk' cache') = disk' csv_path"
proof -
  from assms have "cache = None" and "disk csv_path = Inl e"
    using load_data_error_iff [of disk cache e] by simp_all
  moreover from assms have "cache' = None"
    by (auto dest: load_data_result_cache)
  moreover have "fst (load_data disk' None) = disk' csv_path"
    by (simp add: load_data_def split: sum.splits)
  ultimately show ?thesis by simp
qed

theorem load_data_failure_not_cached_witness:
  "fst (load_data (\<lambda>_. Inr scenario_table) None) = Inr scenario_table"
proof -
  have failed: "load_data (\<lambda>_. Inl ParserError) (None :: unit cache) = (Inl ParserError, None)"
    by (simp add: load_data_def)
  show ?thesis
    using load_data_failure_not_cached [OF failed, of "\<lambda>_. Inr scenario_table"] by simp
qed

end
