(* ===== verification/Sidebar.thy ===== *)
theory Sidebar
  imports Loader
begin

text \<open>
  The sidebar of the dashboard: the three filter widgets of \<open>src/main.py\<close> and where
  their values come from.

  A Streamlit widget returns the value the session holds for it, and its default while
  the user has not touched it. \<open>widget_state\<close> is the part of the session that holds
  these values; \<open>multiselect\<close> and \<open>slider\<close> are the two widget calls. What the user may
  choose is bounded by the widget's options: \<open>valid_selection\<close> and \<open>valid_range\<close> say so
  and are the guards of the events in theory \<open>Session\<close>.

  A float bound that is NaN (a table with no rating at all) is passed on as it is: the
  script hands it to the slider unchanged.

  The theorems pin the options of the multiselects (the values of the column in the
  order of their first row, stated by positions) and the bounds of the slider (the
  smallest and the largest rating that is present).
\<close>

section \<open>Options and bounds, computed from the table\<close>

definition department_options :: "'a dataframe \<Rightarrow> string list" where
  "department_options df = unique (dropna (map DepartmentType df))"

definition status_options :: "'a dataframe \<Rightarrow> string list" where
  "status_options df = unique (dropna (map EmployeeStatus df))"

definition rating_min :: "'a dataframe \<Rightarrow> float64" where
  "rating_min df = series_min (map Current_Employee_Rating df)"

definition rating_max :: "'a dataframe \<Rightarrow> float64" where
  "rating_max df = series_max (map Current_Employee_Rating df)"

section \<open>Widgets\<close>

record widget_state =
  w_department :: "string list option"
  w_status :: "string list option"
  w_rating :: "(float64 \<times> float64) option"

definition initial_widgets :: widget_state where
  "initial_widgets = \<lparr>w_department = None, w_status = None, w_rating = None\<rparr>"

definition multiselect :: "string list \<Rightarrow> string list \<Rightarrow> string list option \<Rightarrow> string list" where
  "multiselect options default_sel stored =
     (case stored of None \<Rightarrow> default_sel | Some sel \<Rightarrow> sel)"

definition slider ::
  "float64 \<Rightarrow> float64 \<Rightarrow> float64 \<times> float64 \<Rightarrow> (float64 \<times> float64) option \<Rightarrow> float64 \<times> float64" where
  "slider min_value max_value value stored = (case stored of None \<Rightarrow> value | Some v \<Rightarrow> v)"

definition department :: "'a dataframe \<Rightarrow> widget_state \<Rightarrow> string list" where
  "department df ws =
     multiselect (department_options df) (department_options df) (w_department ws)"

definition status :: "'a dataframe \<Rightarrow> widget_state \<Rightarrow> string list" where
  "status df ws = multiselect (status_options df) (status_options df) (w_status ws)"

definition rating_range :: "'a dataframe \<Rightarrow> widget_state \<Rightarrow> float64 \<times> float64" where
  "rating_range df ws =
     slider (rating_min df) (rating_max df) (rating_min df, rating_max df) (w_rating ws)"

section \<open>What the user can choose\<close>

definition valid_selection :: "string list \<Rightarrow> string list \<Rightarrow> bool" where
  "valid_selection options sel \<longleftrightarrow> distinct sel \<and> set sel \<subseteq> set options"

definition valid_range :: "float64 \<Rightarrow> float64 \<Rightarrow> float64 \<times> float64 \<Rightarrow> bool" where
  "valid_range min_value max_value v \<longleftrightarrow>
     fle min_value (fst v) \<and> fle (fst v) (snd v) \<and> fle (snd v) max_value"

definition valid_widgets :: "'a dataframe \<Rightarrow> widget_state \<Rightarrow> bool" where
  "valid_widgets df ws \<longleftrightarrow>
     (case w_department ws of None \<Rightarrow> True
      | Some sel \<Rightarrow> valid_selection (department_options df) sel) \<and>
     (case w_status ws of None \<Rightarrow> True
      | Some sel \<Rightarrow> valid_selection (status_options df) sel) \<and>
     (case w_rating ws of None \<Rightarrow> True
      | Some v \<Rightarrow> valid_range (rating_min df) (rating_max df) v)"

lemmas sidebar_defs =
  department_options_def status_options_def rating_min_def rating_max_def
  multiselect_def slider_def department_def status_def rating_range_def
  initial_widgets_def

section \<open>Lemmas: options and bounds\<close>

lemma set_department_options:
  "set (department_options df) = {d. Some d \<in> DepartmentType ` set df}"
  by (auto simp: department_options_def set_unique set_dropna)

lemma set_status_options:
  "set (status_options df) = {s. Some s \<in> EmployeeStatus ` set df}"
  by (auto simp: status_options_def set_unique set_dropna)

lemma distinct_department_options [simp]: "distinct (department_options df)"
  by (simp add: department_options_def distinct_unique)

lemma distinct_status_options [simp]: "distinct (status_options df)"
  by (simp add: status_options_def distinct_unique)

lemma rating_min_le:
  assumes "r \<in> set df" and "Current_Employee_Rating r \<noteq> None"
  shows "fle (rating_min df) (Current_Employee_Rating r)"
proof -
  from assms(2) obtain v where v: "Current_Employee_Rating r = Some v" by auto
  with assms(1) have "Some v \<in> set (map Current_Employee_Rating df)" by force
  then show ?thesis unfolding rating_min_def v by (rule series_min_le)
qed

lemma rating_max_ge:
  assumes "r \<in> set df" and "Current_Employee_Rating r \<noteq> None"
  shows "fle (Current_Employee_Rating r) (rating_max df)"
proof -
  from assms(2) obtain v where v: "Current_Employee_Rating r = Some v" by auto
  with assms(1) have "Some v \<in> set (map Current_Employee_Rating df)" by force
  then show ?thesis unfolding rating_max_def v by (rule series_max_ge)
qed

lemma rating_min_None_iff:
  "rating_min df = None \<longleftrightarrow> (\<forall>r \<in> set df. Current_Employee_Rating r = None)"
  by (auto simp: rating_min_def series_min_None_iff dropna_Nil_iff)

lemma rating_max_None_iff:
  "rating_max df = None \<longleftrightarrow> (\<forall>r \<in> set df. Current_Employee_Rating r = None)"
  by (auto simp: rating_max_def series_max_None_iff dropna_Nil_iff)

lemma rating_min_le_max:
  assumes "rating_min df \<noteq> None"
  shows "fle (rating_min df) (rating_max df)"
proof -
  from assms obtain m where m: "rating_min df = Some m" by auto
  then have "Some m \<in> set (map Current_Employee_Rating df)"
    unfolding rating_min_def by (rule series_min_in)
  then have "fle (Some m) (rating_max df)"
    unfolding rating_max_def by (rule series_max_ge)
  with m show ?thesis by simp
qed

section \<open>Lemmas: widgets\<close>

lemma department_initial [simp]: "department df initial_widgets = department_options df"
  by (simp add: sidebar_defs)

lemma status_initial [simp]: "status df initial_widgets = status_options df"
  by (simp add: sidebar_defs)

lemma rating_range_initial [simp]:
  "rating_range df initial_widgets = (rating_min df, rating_max df)"
  by (simp add: sidebar_defs)

lemma valid_widgets_initial [simp]: "valid_widgets df initial_widgets"
  by (simp add: valid_widgets_def initial_widgets_def)

lemma valid_selection_options [simp]: "valid_selection (department_options df) (department_options df)"
  "valid_selection (status_options df) (status_options df)"
  by (simp_all add: valid_selection_def)

lemma valid_department:
  "valid_widgets df ws \<Longrightarrow> valid_selection (department_options df) (department df ws)"
  by (auto simp: valid_widgets_def department_def multiselect_def split: option.splits)

lemma valid_status:
  "valid_widgets df ws \<Longrightarrow> valid_selection (status_options df) (status df ws)"
  by (auto simp: valid_widgets_def status_def multiselect_def split: option.splits)

section \<open>Theorems\<close>

text \<open>
  Claim C31. The options of the department widget are the departments of the table in the
  order of their first row: the option list is read off the rows whose department is
  present and occurs in no earlier row, in row order. The same holds for the status
  widget and the status column.
\<close>

theorem options_first_seen_order:
  "department_options df =
     map (\<lambda>i. the (DepartmentType (df ! i)))
       (filter (\<lambda>i. DepartmentType (df ! i) \<noteq> None \<and>
                    DepartmentType (df ! i) \<notin> DepartmentType ` set (take i df))
          [0..<length df]) \<and>
   status_options df =
     map (\<lambda>i. the (EmployeeStatus (df ! i)))
       (filter (\<lambda>i. EmployeeStatus (df ! i) \<noteq> None \<and>
                    EmployeeStatus (df ! i) \<notin> EmployeeStatus ` set (take i df))
          [0..<length df])"
  unfolding department_options_def status_options_def
  by (intro conjI unique_column_positions)

text \<open>
  Claim C32. The bounds of the slider cover the ratings of the table: every rating that
  is present lies between the minimum and the maximum, both bounds are ratings of the
  table, and they are NaN only together, when the table has no rating.
\<close>

theorem slider_bounds_cover_ratings:
  "list_all (\<lambda>r. Current_Employee_Rating r = None \<or>
       fle (rating_min df) (Current_Employee_Rating r) \<and>
       fle (Current_Employee_Rating r) (rating_max df)) df \<and>
   (rating_min df = None) = (rating_max df = None) \<and>
   (rating_min df = None \<or> rating_min df \<in> set (map Current_Employee_Rating df)) \<and>
   (rating_max df = None \<or> rating_max df \<in> set (map Current_Employee_Rating df))"
proof -
  have "list_all (\<lambda>r. Current_Employee_Rating r = None \<or>
       fle (rating_min df) (Current_Employee_Rating r) \<and>
       fle (Current_Employee_Rating r) (rating_max df)) df"
    by (auto simp: list_all_iff intro: rating_min_le rating_max_ge)
  moreover have "(rating_min df = None) = (rating_max df = None)"
    by (simp add: rating_min_None_iff rating_max_None_iff)
  moreover have "rating_min df = None \<or> rating_min df \<in> set (map Current_Employee_Rating df)"
    unfolding rating_min_def by (cases "series_min (map Current_Employee_Rating df)")
      (auto dest: series_min_in)
  moreover have "rating_max df = None \<or> rating_max df \<in> set (map Current_Employee_Rating df)"
    unfolding rating_max_def by (cases "series_max (map Current_Employee_Rating df)")
      (auto dest: series_max_in)
  ultimately show ?thesis by simp
qed

end
