(* ===== verification/Filter_Engine.thy ===== *)
theory Filter_Engine
  imports Sidebar
begin

text \<open>
  The filter of the dashboard (\<open>filtered_df\<close> in \<open>src/main.py\<close>): three boolean masks
  over the columns of the table, combined with \<open>&\<close>, and the rows where the combined mask
  holds.

  \<open>view_mask\<close> and \<open>filtered_df\<close> are written as the script writes them, mask by mask.
  \<open>matches\<close> is the contract of the filter on one row (department selected, status
  selected, rating in the closed range): the specification the masks are proved to
  implement. \<open>complete\<close> says that a row misses none of the three filtered cells.
  \<open>current_view\<close> is the view of a session: the filter applied to the values of the
  three widgets.

  The theorems show that the masks implement the contract, what the filter does on the
  boundary inputs (nothing selected, an inverted or NaN range, missing cells), that it
  keeps the order of the rows, and how the view of the untouched widgets relates to the
  whole table. The collection \<open>view_simps\<close> rewrites a view to a list filter; the
  theories that consume the view use it.
\<close>

section \<open>Definitions\<close>

definition view_mask ::
  "'a dataframe \<Rightarrow> string list \<Rightarrow> string list \<Rightarrow> float64 \<times> float64 \<Rightarrow> mask" where
  "view_mask df dept sts rng =
     mask_and
       (mask_and
          (isin (map DepartmentType df) (map Some dept))
          (isin (map EmployeeStatus df) (map Some sts)))
       (between (map Current_Employee_Rating df) (fst rng) (snd rng))"

definition filtered_df ::
  "'a dataframe \<Rightarrow> string list \<Rightarrow> string list \<Rightarrow> float64 \<times> float64 \<Rightarrow> 'a dataframe" where
  "filtered_df df dept sts rng = select df (view_mask df dept sts rng)"

definition current_view :: "'a dataframe \<Rightarrow> widget_state \<Rightarrow> 'a dataframe" where
  "current_view df ws = filtered_df df (department df ws) (status df ws) (rating_range df ws)"

text \<open>The contract of the filter, and the rows that miss no filtered cell.\<close>

definition matches ::
  "string list \<Rightarrow> string list \<Rightarrow> float64 \<times> float64 \<Rightarrow> 'a employee_scheme \<Rightarrow> bool" where
  "matches dept sts rng r \<longleftrightarrow>
     DepartmentType r \<in> Some ` set dept \<and>
     EmployeeStatus r \<in> Some ` set sts \<and>
     fle (fst rng) (Current_Employee_Rating r) \<and>
     fle (Current_Employee_Rating r) (snd rng)"

definition complete :: "'a employee_scheme \<Rightarrow> bool" where
  "complete r \<longleftrightarrow>
     DepartmentType r \<noteq> None \<and> EmployeeStatus r \<noteq> None \<and> Current_Employee_Rating r \<noteq> None"

section \<open>The mask, row by row\<close>

lemma view_mask_map: "view_mask df dept sts rng = map (matches dept sts rng) df"
  by (simp add: view_mask_def frame_simps matches_def [abs_def] conj_assoc)

lemma length_view_mask [simp]: "length (view_mask df dept sts rng) = length df"
  by (simp add: view_mask_map)

lemmas view_simps = filtered_df_def view_mask_map select_map

lemmas view_eval =
  filtered_df_def view_mask_def isin_def between_def mask_and_def select_def
  current_view_def sidebar_defs frame_defs

lemma matches_complete: "matches dept sts rng r \<Longrightarrow> complete r"
  by (auto simp: matches_def complete_def fle_iff)

lemma matches_range_ordered: "matches dept sts rng r \<Longrightarrow> fle (fst rng) (snd rng)"
  by (auto simp: matches_def intro: fle_trans)

lemma matches_mono:
  assumes "matches dept sts rng r"
    and "set dept \<subseteq> set dept'" and "set sts \<subseteq> set sts'"
    and "fle (fst rng') (fst rng)" and "fle (snd rng) (snd rng')"
  shows "matches dept' sts' rng' r"
  using assms unfolding matches_def by (blast intro: fle_trans)

lemma matches_options:
  assumes "r \<in> set df" and "complete r"
  shows "matches (department_options df) (status_options df) (rating_min df, rating_max df) r"
proof -
  from assms have "DepartmentType r \<in> Some ` set (department_options df)"
    by (force simp: complete_def set_department_options)
  moreover from assms have "EmployeeStatus r \<in> Some ` set (status_options df)"
    by (force simp: complete_def set_status_options)
  moreover from assms have "fle (rating_min df) (Current_Employee_Rating r)"
    by (simp add: complete_def rating_min_le)
  moreover from assms have "fle (Current_Employee_Rating r) (rating_max df)"
    by (simp add: complete_def rating_max_ge)
  ultimately show ?thesis by (simp add: matches_def)
qed

lemma matches_options_iff:
  "r \<in> set df \<Longrightarrow>
   matches (department_options df) (status_options df) (rating_min df, rating_max df) r
   \<longleftrightarrow> complete r"
  by (blast intro: matches_options matches_complete)

section \<open>The masks implement the contract\<close>

text \<open>
  Claim C1. The filter written with column masks keeps exactly the rows that satisfy the
  contract, in their order: it is the list filter by \<open>matches\<close>. Every row of the view
  satisfies the three predicates and every row of the table that satisfies them is in
  the view.
\<close>

theorem filtered_df_refines_spec:
  "filtered_df df dept sts rng = filter (matches dept sts rng) df"
  by (simp add: view_simps)

text \<open>
  Claim C5. A row that misses its department, its status or its rating is in no view,
  whatever the widgets select.
\<close>

theorem filtered_df_excludes_missing:
  "list_all complete (filtered_df df dept sts rng)"
  by (auto simp: view_simps list_all_iff intro: matches_complete)

text \<open>
  Claim C21. With the widgets untouched (all departments, all statuses, the full range of
  ratings) the view is the table without the rows that miss a filtered cell.
\<close>

theorem initial_view_complete_rows:
  "current_view df initial_widgets = filter complete df"
  by (simp add: current_view_def view_simps matches_options_iff cong: filter_cong)

text \<open>
  Claim C4. The untouched widgets show the whole table if and only if no row misses a
  filtered cell: one row without a department, status or rating is enough for the full
  selection to show less than the table.
\<close>

theorem initial_view_whole_table_iff:
  "current_view df initial_widgets = df \<longleftrightarrow> list_all complete df"
proof -
  have "current_view df initial_widgets = filter complete df"
    by (simp add: current_view_def view_simps matches_options_iff cong: filter_cong)
  then show ?thesis by (simp add: filter_id_conv list_all_iff)
qed

text \<open>
  Claim C19. An empty selection of departments or of statuses gives the empty view; it
  does not mean "all".
\<close>

theorem filtered_df_empty_selection:
  "filtered_df df [] sts rng = [] \<and> filtered_df df dept [] rng = []"
  by (simp add: view_simps matches_def)

text \<open>
  Claim C18. A range whose lower end is above its upper end, or one of whose ends is NaN,
  gives the empty view and no error.
\<close>

theorem filtered_df_vacuous_range:
  assumes "\<not> fle lo hi"
  shows "filtered_df df dept sts (lo, hi) = []"
proof -
  have "\<not> matches dept sts (lo, hi) r" for r :: "'a employee_scheme"
    using assms matches_range_ordered [of dept sts "(lo, hi)" r] by auto
  then show ?thesis by (simp add: view_simps)
qed

theorem filtered_df_vacuous_range_witness:
  "filtered_df scenario_df [''Sales'', ''Eng''] [''Active''] (Some 4, Some 1) = [] \<and>
   filtered_df scenario_df [''Sales'', ''Eng''] [''Active''] (None, Some 5) = []"
proof -
  have "\<not> fle (Some 4) (Some 1)" and "\<not> fle None (Some 5)" by simp_all
  then show ?thesis by (simp add: filtered_df_vacuous_range)
qed

text \<open>
  Claim C20. The view keeps the rows in the order of the table: it is a subsequence of
  it, and widening the selections or the range only adds rows.
\<close>

theorem filtered_df_monotone:
  assumes "set dept \<subseteq> set dept'" and "set sts \<subseteq> set sts'"
    and "fle (fst rng') (fst rng)" and "fle (snd rng) (snd rng')"
  shows "subseq (filtered_df df dept sts rng) (filtered_df df dept' sts' rng') \<and>
         subseq (filtered_df df dept' sts' rng') df"
proof -
  let ?P = "matches dept sts rng" and ?Q = "matches dept' sts' rng'"
  have imp: "?Q r" if "?P r" for r :: "'a employee_scheme"
    using that assms by (rule matches_mono)
  have "filter ?P (filter ?Q df) = filter (\<lambda>r. ?Q r \<and> ?P r) df"
    by simp
  also have "\<dots> = filter ?P df"
    by (rule filter_cong) (auto dest: imp)
  finally have "filter ?P (filter ?Q df) = filter ?P df" .
  moreover have "subseq (filter ?P (filter ?Q df)) (filter ?Q df)"
    by (rule subseq_filter_left)
  ultimately have "subseq (filter ?P df) (filter ?Q df)"
    by simp
  then show ?thesis by (simp add: view_simps)
qed

theorem filtered_df_monotone_witness:
  "subseq (filtered_df scenario_df [''Sales''] [''Active''] (Some 2, Some 3))
     (filtered_df scenario_df [''Eng'', ''Sales''] [''Active'', ''Terminated''] (Some 1, Some 5)) \<and>
   subseq (filtered_df scenario_df [''Eng'', ''Sales''] [''Active'', ''Terminated''] (Some 1, Some 5))
     scenario_df"
  by (rule filtered_df_monotone) simp_all

end
