(* ===== verification/Aggregator.thy ===== *)
theory Aggregator
  imports Filter_Engine
begin

text \<open>
  The aggregates of the dashboard, computed from the filtered table (\<open>src/main.py\<close>,
  the KPI row and the tables behind the four charts):
  \<^item> \<open>total_emp\<close>, \<open>active_emp\<close>, \<open>avg_rating\<close>: the three metrics;
  \<^item> \<open>dept_count\<close>, \<open>perf_count\<close>, \<open>type_count\<close>: value counts of one column each, as
    rows (value, count) with the largest count first;
  \<^item> \<open>dept_perf\<close>: the mean rating of each department, departments ascending.

  Each takes the filtered table as its argument, as the script reads \<open>filtered_df\<close>.
  The theorems relate the aggregates to each other and to the widgets: the counts add
  up to the total, the average lies in the selected range and is NaN exactly for the
  empty view, the count table has a largest count first, the charts show the same
  departments, the group means average to the overall mean, and the bar of a department
  is the metric of the view narrowed to that department.
\<close>

section \<open>Definitions\<close>

definition total_emp :: "'a dataframe \<Rightarrow> nat" where
  "total_emp fdf = length fdf"

definition active_emp :: "'a dataframe \<Rightarrow> nat" where
  "active_emp fdf = length (select fdf (eq_mask (map EmployeeStatus fdf) ''Active''))"

definition avg_rating :: "'a dataframe \<Rightarrow> float64" where
  "avg_rating fdf = round2 (series_mean (map Current_Employee_Rating fdf))"

definition dept_count :: "'a dataframe \<Rightarrow> (string \<times> nat) list" where
  "dept_count fdf = value_counts (map DepartmentType fdf)"

definition perf_count :: "'a dataframe \<Rightarrow> (string \<times> nat) list" where
  "perf_count fdf = value_counts (map Performance_Score fdf)"

definition type_count :: "'a dataframe \<Rightarrow> (string \<times> nat) list" where
  "type_count fdf = value_counts (map EmployeeType fdf)"

definition dept_perf :: "'a dataframe \<Rightarrow> (string \<times> float64) list" where
  "dept_perf fdf = groupby_mean (map DepartmentType fdf) (map Current_Employee_Rating fdf)"

lemmas aggregator_defs =
  total_emp_def active_emp_def avg_rating_def dept_count_def perf_count_def type_count_def
  dept_perf_def

section \<open>Columns of a view\<close>

lemma view_complete: "r \<in> set (filtered_df df dept sts rng) \<Longrightarrow> complete r"
  by (auto simp: view_simps intro: matches_complete)

lemma view_department_column:
  "length (dropna (map DepartmentType (filtered_df df dept sts rng))) =
   length (filtered_df df dept sts rng)"
  by (rule dropna_column_complete) (auto simp: list_all_iff complete_def dest: view_complete)

lemma view_rating_column:
  "length (dropna (map Current_Employee_Rating (filtered_df df dept sts rng))) =
   length (filtered_df df dept sts rng)"
  by (rule dropna_column_complete) (auto simp: list_all_iff complete_def dest: view_complete)

lemma view_group_rating_column:
  "length (dropna (map Current_Employee_Rating
      (filter P (filtered_df df dept sts rng)))) = length (filter P (filtered_df df dept sts rng))"
  by (rule dropna_column_complete) (auto simp: list_all_iff complete_def dest: view_complete)

lemma view_rating_bounds:
  assumes "c \<in> set (map Current_Employee_Rating (filtered_df df dept sts rng))"
  shows "fle (fst rng) c \<and> fle c (snd rng)"
  using assms by (auto simp: view_simps matches_def)

lemma view_mean_bounds:
  assumes "series_mean (map Current_Employee_Rating (filtered_df df dept sts rng)) = Some a"
  shows "fle (fst rng) (Some a) \<and> fle (Some a) (snd rng)"
proof -
  let ?col = "map Current_Employee_Rating (filtered_df df dept sts rng)"
  have "\<forall>c \<in> set ?col. c = None \<or> fle (fst rng) c"
    and "\<forall>c \<in> set ?col. c = None \<or> fle c (snd rng)"
    using view_rating_bounds [of _ df dept sts rng] by blast+
  with assms show ?thesis
    by (blast intro: series_mean_ge series_mean_le)
qed

lemma view_column_present:
  "map Some (dropna (map Current_Employee_Rating (filtered_df df dept sts rng))) =
   map Current_Employee_Rating (filtered_df df dept sts rng)"
  by (rule map_Some_dropna) (auto simp: list_all_iff complete_def dest: view_complete)

lemma active_emp_filter:
  "active_emp fdf = length (filter (\<lambda>r. EmployeeStatus r = Some ''Active'') fdf)"
  by (simp add: active_emp_def frame_simps)

section \<open>The metrics\<close>

text \<open>
  Claim C22. The number of active employees of a view is the size of the view that keeps,
  of the selected statuses, only \<open>Active\<close>: it never exceeds the total, and it is 0 when
  \<open>Active\<close> is not selected.
\<close>

theorem active_emp_is_active_view:
  "active_emp (filtered_df df dept sts rng) =
   total_emp (filtered_df df dept (filter (\<lambda>s. s = ''Active'') sts) rng) \<and>
   active_emp (filtered_df df dept sts rng) \<le> total_emp (filtered_df df dept sts rng)"
proof -
  have "(matches dept sts rng r \<and> EmployeeStatus r = Some ''Active'') =
        matches dept (filter (\<lambda>s. s = ''Active'') sts) rng r" for r :: "'a employee_scheme"
    by (auto simp: matches_def)
  then have "filter (\<lambda>r. EmployeeStatus r = Some ''Active'') (filter (matches dept sts rng) df) =
        filter (matches dept (filter (\<lambda>s. s = ''Active'') sts) rng) df"
    by simp
  then have "active_emp (filtered_df df dept sts rng) =
      total_emp (filtered_df df dept (filter (\<lambda>s. s = ''Active'') sts) rng)"
    by (simp add: active_emp_filter total_emp_def view_simps del: filter_filter)
  moreover have "active_emp (filtered_df df dept sts rng) \<le> total_emp (filtered_df df dept sts rng)"
    by (simp add: active_emp_filter total_emp_def)
  ultimately show ?thesis by simp
qed

text \<open>
  Claim C7. The average rating is NaN exactly when the view is empty: the mean of no
  rows is a value of the model, not a failure, and a view with a row always has a
  number as its average.
\<close>

theorem avg_rating_nan_iff_empty:
  "avg_rating (filtered_df df dept sts rng) = None \<longleftrightarrow> filtered_df df dept sts rng = []"
proof -
  have "dropna (map Current_Employee_Rating (filtered_df df dept sts rng)) = [] \<longleftrightarrow>
        filtered_df df dept sts rng = []"
    using view_rating_column [of df dept sts rng] by (metis length_0_conv)
  then show ?thesis by (simp add: avg_rating_def series_mean_None_iff)
qed

text \<open>
  Claim C8. The average rating of a view lies in the selected range, up to the rounding
  to two decimals: between the rounded lower end and the rounded upper end of the
  slider.
\<close>

theorem avg_rating_in_range:
  assumes "avg_rating (filtered_df df dept sts rng) = Some m"
  shows "fle (round2 (fst rng)) (Some m) \<and> fle (Some m) (round2 (snd rng))"
proof -
  let ?col = "map Current_Employee_Rating (filtered_df df dept sts rng)"
  from assms obtain a where a: "series_mean ?col = Some a" and m: "round2 (Some a) = Some m"
    by (cases "series_mean ?col") (auto simp: avg_rating_def)
  from a have "fle (fst rng) (Some a)" and "fle (Some a) (snd rng)"
    by (simp_all add: view_mean_bounds)
  then have "fle (round2 (fst rng)) (round2 (Some a))"
    and "fle (round2 (Some a)) (round2 (snd rng))"
    by (simp_all add: round2_mono)
  with m show ?thesis by simp
qed

lemma view_active_eval:
  "filtered_df scenario_df [''Sales'', ''Eng''] [''Active''] (Some 2, Some 5) =
   [scenario_df ! 0, scenario_df ! 1, scenario_df ! 3]"
  by (simp add: view_eval scenario_df_def)

lemma avg_active_eval:
  "avg_rating (filtered_df scenario_df [''Sales'', ''Eng''] [''Active''] (Some 2, Some 5)) =
   Some (333 / 100)"
  by (simp add: view_active_eval) (simp add: aggregator_defs frame_defs scenario_df_def rint_def)

theorem avg_rating_in_range_witness:
  "fle (round2 (Some 2)) (Some (333 / 100)) \<and> fle (Some (333 / 100)) (round2 (Some 5))"
  using avg_rating_in_range [OF avg_active_eval] by simp

section \<open>The tables of counts\<close>

text \<open>
  Claim C9. The department counts of a view add up to its total: every employee of the view is
  in exactly one bar of the department chart.
\<close>

theorem dept_count_partitions_total:
  "sum_list (map snd (dept_count (filtered_df df dept sts rng))) =
   total_emp (filtered_df df dept sts rng)"
  by (simp add: dept_count_def total_emp_def sum_value_counts view_department_column)

text \<open>
  Claim C10. The counts of the performance-score chart and of the employee-type chart add up to
  the total less the rows whose cell is missing: a row without a performance score or
  an employee type is counted in the total and in no slice or bar.
\<close>

theorem counts_plus_missing_is_total:
  "sum_list (map snd (perf_count fdf)) + length (filter (\<lambda>r. Performance_Score r = None) fdf) =
     total_emp fdf \<and>
   sum_list (map snd (type_count fdf)) + length (filter (\<lambda>r. EmployeeType r = None) fdf) =
     total_emp fdf"
  by (simp add: perf_count_def type_count_def total_emp_def sum_value_counts_column)

text \<open>
  Claim C23. A department has a row in the count table exactly when it occurs, and its count is
  the number of rows of that department; no row of the table has count 0.
\<close>

theorem dept_count_rows:
  "(d, n) \<in> set (dept_count fdf) \<longleftrightarrow>
   0 < n \<and> n = length (filter (\<lambda>r. DepartmentType r = Some d) fdf)"
  by (simp add: dept_count_def value_counts_column_iff)

text \<open>
  Claim C24. The first row of the count table is a department with the largest number of
  employees in the view: its count is the number of its rows, no department has more
  rows, the counts of the table never increase from one row to the next, and no
  department has two rows.
\<close>

theorem dept_count_order:
  assumes "dept_count fdf = (d, n) # rest"
  shows "n = length (filter (\<lambda>r. DepartmentType r = Some d) fdf) \<and>
         (\<forall>d'. length (filter (\<lambda>r. DepartmentType r = Some d') fdf) \<le> n) \<and>
         sorted (rev (map snd (dept_count fdf))) \<and> distinct (map fst (dept_count fdf))"
proof -
  let ?rows = "\<lambda>d'. length (filter (\<lambda>r. DepartmentType r = Some d') fdf)"
  from assms have "(d, n) \<in> set (dept_count fdf)" by simp
  then have n: "n = ?rows d"
    by (simp add: dept_count_def value_counts_column_iff)
  have "?rows d' \<le> n" for d'
  proof (cases "?rows d' = 0")
    case True
    then show ?thesis by simp
  next
    case False
    then have "(d', ?rows d') \<in> set (value_counts (map DepartmentType fdf))"
      by (simp add: value_counts_column_iff)
    with assms show ?thesis
      unfolding dept_count_def by (rule value_counts_head_max)
  qed
  with n show ?thesis
    by (simp add: dept_count_def sorted_value_counts distinct_fst_value_counts)
qed

lemma dept_count_scenario: "dept_count scenario_df = [(''Sales'', 3), (''Eng'', 2)]"
  by (simp add: aggregator_defs frame_defs scenario_df_def)

theorem dept_count_order_witness:
  "(3 :: nat) = length (filter (\<lambda>r. DepartmentType r = Some ''Sales'') scenario_df) \<and>
   (\<forall>d'. length (filter (\<lambda>r. DepartmentType r = Some d') scenario_df) \<le> 3) \<and>
   sorted (rev (map snd (dept_count scenario_df))) \<and> distinct (map fst (dept_count scenario_df))"
  by (rule dept_count_order) (rule dept_count_scenario)

text \<open>
  Claim C29. The departments of the count table of a view are among the selected departments.
\<close>

theorem dept_count_within_selection:
  "set (map fst (dept_count (filtered_df df dept sts rng))) \<subseteq> set dept"
proof -
  have "set (map fst (dept_count (filtered_df df dept sts rng))) =
        set (dropna (map DepartmentType (filtered_df df dept sts rng)))"
    by (simp add: dept_count_def set_fst_value_counts)
  also have "\<dots> \<subseteq> set dept"
    by (auto simp: set_dropna view_simps matches_def)
  finally show ?thesis .
qed

text \<open>
  Claim C25. The chart of mean ratings and the chart of counts show the same departments; the
  first lists them in ascending order, each once.
\<close>

theorem charts_same_departments:
  "map fst (dept_perf fdf) = sort (map fst (dept_count fdf)) \<and>
   sorted_wrt (<) (map fst (dept_perf fdf))"
proof -
  have "mset (map fst (dept_count fdf)) = mset (unique (dropna (map DepartmentType fdf)))"
    unfolding dept_count_def by (rule map_fst_value_counts_mset)
  then have "sort (map fst (dept_count fdf)) = sort (unique (dropna (map DepartmentType fdf)))"
    by (metis properties_for_sort sorted_sort mset_sort)
  moreover have "sorted_wrt (<) (map fst (dept_perf fdf))"
    unfolding dept_perf_def by (rule sorted_groupby_keys)
  ultimately show ?thesis
    by (simp add: dept_perf_def map_fst_groupby_mean)
qed

section \<open>The table of mean ratings\<close>

text \<open>
  Claim C26. In a view every department's mean rating is a number in the selected range: no bar
  of the fourth chart is NaN and none lies outside the slider.
\<close>

theorem dept_perf_in_range:
  "list_all (\<lambda>(d, m). fle (fst rng) m \<and> fle m (snd rng))
     (dept_perf (filtered_df df dept sts rng))"
proof -
  let ?v = "filtered_df df dept sts rng"
  have "fle (fst rng) m \<and> fle m (snd rng)" if dm: "(d, m) \<in> set (dept_perf ?v)" for d m
  proof -
    let ?g = "filter (\<lambda>r. DepartmentType r = Some d) ?v"
    let ?col = "map Current_Employee_Rating ?g"
    from dm have m: "m = series_mean ?col" and "Some d \<in> DepartmentType ` set ?v"
      by (simp_all add: dept_perf_def groupby_mean_iff)
    then have "?g \<noteq> []" by (auto simp: filter_empty_conv)
    then have "dropna ?col \<noteq> []"
      using view_group_rating_column [of "\<lambda>r. DepartmentType r = Some d" df dept sts rng]
      by (metis length_0_conv)
    with m obtain a where a: "series_mean ?col = Some a"
      by (auto simp: series_mean_None_iff [symmetric])
    have "set ?col \<subseteq> set (map Current_Employee_Rating ?v)" by auto
    then have "\<forall>c \<in> set ?col. c = None \<or> fle (fst rng) c"
      and "\<forall>c \<in> set ?col. c = None \<or> fle c (snd rng)"
      using view_rating_bounds [of _ df dept sts rng] by blast+
    with a have "fle (fst rng) (Some a)" and "fle (Some a) (snd rng)"
      by (blast intro: series_mean_ge series_mean_le)+
    with a m show ?thesis by simp
  qed
  then show ?thesis by (auto simp: list_all_iff)
qed

text \<open>
  Claim C11. The department means of a view, each weighted with the number of rows of its
  department, add up to the sum of all ratings of the view: the fourth chart and the
  average metric agree.
\<close>

theorem dept_perf_weighted_sum:
  "sum_list (map (\<lambda>(d, m). case m of None \<Rightarrow> 0
      | Some a \<Rightarrow> a * real (length (filter (\<lambda>r. DepartmentType r = Some d)
                                    (filtered_df df dept sts rng))))
     (dept_perf (filtered_df df dept sts rng))) =
   sum_list (dropna (map Current_Employee_Rating (filtered_df df dept sts rng)))"
proof -
  let ?v = "filtered_df df dept sts rng"
  let ?ks = "sort (unique (dropna (map DepartmentType ?v)))"
  let ?val = "\<lambda>r. case Current_Employee_Rating r of None \<Rightarrow> 0 | Some x \<Rightarrow> x"
  let ?grp = "\<lambda>k. filter (\<lambda>r. DepartmentType r = k) ?v"
  have group_sum: "(case series_mean (map Current_Employee_Rating (?grp (Some d))) of None \<Rightarrow> 0
        | Some a \<Rightarrow> a * real (length (?grp (Some d)))) =
      sum_list (map ?val (?grp (Some d)))" for d
    using series_mean_times_length [of "map Current_Employee_Rating (?grp (Some d))"]
    unfolding view_group_rating_column sum_list_dropna_map .
  have "sum_list (map (\<lambda>(d, m). case m of None \<Rightarrow> 0
          | Some a \<Rightarrow> a * real (length (?grp (Some d)))) (dept_perf ?v)) =
        sum_list (map (\<lambda>d. sum_list (map ?val (?grp (Some d)))) ?ks)"
    by (simp add: dept_perf_def groupby_mean_rows comp_def group_sum)
  also have "\<dots> = sum_list (map (\<lambda>k. sum_list (map ?val (?grp k))) (map Some ?ks))"
    by (simp add: comp_def)
  also have "\<dots> = sum_list (map ?val ?v)"
  proof (rule sum_list_group_partition)
    show "distinct (map Some ?ks)" by (simp add: distinct_map distinct_unique)
    show "DepartmentType ` set ?v \<subseteq> set (map Some ?ks)"
    proof
      fix c assume "c \<in> DepartmentType ` set ?v"
      then obtain r where r: "r \<in> set ?v" "c = DepartmentType r" by auto
      from r(1) have "complete r" by (rule view_complete)
      then obtain d where "DepartmentType r = Some d" by (auto simp: complete_def)
      with r show "c \<in> set (map Some ?ks)" by (force simp: set_unique set_dropna)
    qed
  qed
  finally show ?thesis by (simp add: sum_list_dropna_map)
qed

section \<open>Drilling down into one department\<close>

lemma view_one_department:
  assumes "d \<in> set dept"
  shows "filter (\<lambda>r. DepartmentType r = Some d) (filtered_df df dept sts rng) =
         filtered_df df [d] sts rng"
proof -
  from assms have "(matches dept sts rng r \<and> DepartmentType r = Some d) = matches [d] sts rng r"
    for r :: "'a employee_scheme"
    by (auto simp: matches_def)
  then show ?thesis by (simp add: view_simps conj_commute)
qed

text \<open>
  Claim C27. The bars of a selected department agree with the metrics shown when only that
  department is selected: its bar in the count chart is the total of that narrower
  view, and its bar in the chart of means is the mean rating of that view, which the
  average metric shows rounded.
\<close>

theorem drill_down_consistent:
  assumes "d \<in> set dept"
  shows "((d, n) \<in> set (dept_count (filtered_df df dept sts rng)) \<longleftrightarrow>
            0 < n \<and> n = total_emp (filtered_df df [d] sts rng)) \<and>
         ((d, m) \<in> set (dept_perf (filtered_df df dept sts rng)) \<longleftrightarrow>
            filtered_df df [d] sts rng \<noteq> [] \<and>
            m = series_mean (map Current_Employee_Rating (filtered_df df [d] sts rng))) \<and>
         ((d, m) \<in> set (dept_perf (filtered_df df dept sts rng)) \<longrightarrow>
            avg_rating (filtered_df df [d] sts rng) = round2 m)"
proof -
  let ?v = "filtered_df df dept sts rng"
  let ?g = "filter (\<lambda>r. DepartmentType r = Some d) ?v"
  have g: "?g = filtered_df df [d] sts rng"
    using assms by (rule view_one_department)
  have "Some d \<in> DepartmentType ` set ?v \<longleftrightarrow> ?g \<noteq> []"
    by (force simp: filter_empty_conv)
  then have perf: "(d, m) \<in> set (dept_perf ?v) \<longleftrightarrow>
      ?g \<noteq> [] \<and> m = series_mean (map Current_Employee_Rating ?g)"
    by (simp add: dept_perf_def groupby_mean_iff)
  have "(d, n) \<in> set (dept_count ?v) \<longleftrightarrow> 0 < n \<and> n = length ?g"
    by (simp add: dept_count_def value_counts_column_iff)
  with perf show ?thesis
    unfolding g by (simp add: total_emp_def avg_rating_def)
qed

lemma view_sales_active_eval:
  "filtered_df scenario_df [''Sales''] [''Active''] (Some 1, Some 5) = take 2 scenario_df"
  by (simp add: view_eval scenario_df_def)

theorem drill_down_consistent_witness:
  "(''Sales'', 2) \<in> set (dept_count (filtered_df scenario_df [''Eng'', ''Sales''] [''Active'']
       (Some 1, Some 5))) \<and>
   (''Sales'', Some (5 / 2)) \<in> set (dept_perf (filtered_df scenario_df [''Eng'', ''Sales'']
       [''Active''] (Some 1, Some 5))) \<and>
   avg_rating (filtered_df scenario_df [''Sales''] [''Active''] (Some 1, Some 5)) = Some (5 / 2)"
proof -
  have "''Sales'' \<in> set [''Eng'', ''Sales'']" by simp
  from drill_down_consistent [OF this, of 2 scenario_df "[''Active'']" "(Some 1, Some 5)"
      "Some (5 / 2)"]
  show ?thesis
    by (simp add: view_sales_active_eval)
      (simp add: total_emp_def frame_defs scenario_df_def rint_def)
qed

section \<open>Rounding of the average\<close>

text \<open>
  Claim C30. The displayed average is a multiple of one hundredth and differs from the exact
  mean by at most 0.005.
\<close>

theorem avg_rating_rounding:
  assumes "avg_rating fdf = Some m"
  shows "\<exists>a k. series_mean (map Current_Employee_Rating fdf) = Some a \<and>
           \<bar>m - a\<bar> \<le> 1 / 200 \<and> m = of_int k / 100"
proof -
  from assms obtain a where a: "series_mean (map Current_Employee_Rating fdf) = Some a"
    and m: "round2 (Some a) = Some m"
    by (cases "series_mean (map Current_Employee_Rating fdf)") (auto simp: avg_rating_def)
  from m have "\<bar>m - a\<bar> \<le> 1 / 200" by (rule round2_error)
  moreover from m have "m = of_int (rint (a * 100)) / 100" by (auto simp: round2_def)
  ultimately show ?thesis using a by blast
qed

theorem avg_rating_rounding_witness:
  "\<exists>a k. series_mean (map Current_Employee_Rating
            (filtered_df scenario_df [''Sales'', ''Eng''] [''Active''] (Some 2, Some 5))) = Some a \<and>
         \<bar>333 / 100 - a\<bar> \<le> 1 / 200 \<and> (333 / 100 :: real) = of_int k / 100"
  by (rule avg_rating_rounding) (rule avg_active_eval)

section \<open>The scenario of the specification\<close>

lemma view_sales_eval:
  "filtered_df scenario_df [''Sales''] (status_options scenario_df) (Some 0, Some 5) =
   take 3 scenario_df"
  by (simp add: view_eval scenario_df_def)

text \<open>
  The definitions evaluate: of five employees, three in Sales with ratings 2, 3 and 4
  and two in Eng, the selection of Sales with every status and the range 0 to 5 gives
  the total 3, the average 3.0 and the one group mean 3.0 for Sales.
\<close>

lemma scenario_sales:
  "total_emp (filtered_df scenario_df [''Sales''] (status_options scenario_df) (Some 0, Some 5)) = 3 \<and>
   avg_rating (filtered_df scenario_df [''Sales''] (status_options scenario_df) (Some 0, Some 5)) = Some 3 \<and>
   dept_perf (filtered_df scenario_df [''Sales''] (status_options scenario_df) (Some 0, Some 5)) =
     [(''Sales'', Some 3)]"
  by (simp add: view_sales_eval) (simp add: aggregator_defs frame_defs scenario_df_def rint_def)

end
