(* ===== verification/Presenter.thy ===== *)
theory Presenter
  imports Aggregator
begin

text \<open>
  What the script puts on the page (\<open>src/main.py\<close>: the page configuration, the style
  sheet, the sidebar, the KPI row, the four charts, the table and the footer), as data.

  A page is the list of the elements the script emits, in order, for the sidebar and
  for the main area. An element carries the arguments of its Streamlit call; a chart
  carries the table handed to plotly and the names of the columns that the call binds
  to its axes, texts and colours. How Streamlit and plotly draw an element is outside
  the model. Text is a list of bytes; the emoji of the labels are their UTF-8 bytes.

  \<open>bar_labels\<close> and \<open>bar_counts\<close> read the data of a chart back from its table; the
  collection \<open>chart_simps\<close> rewrites them to the aggregates. What the metrics, the charts
  and the drill-down table of a session show is proved in the root theory, where the
  page meets the sessions.
\<close>

section \<open>Elements\<close>

datatype scalar = IntVal nat | FloatVal float64

record chart_table =
  columns :: "string \<times> string"
  table_rows :: "(string \<times> scalar) list"

datatype figure =
    Bar (fig_table: chart_table) (bar_x: string) (bar_y: string)
      (bar_text: "string option") (bar_text_auto: bool) (bar_color: string)
      (transition_duration: "nat option")
  | Pie (fig_table: chart_table) (pie_names: string) (pie_values: string) (pie_hole: real)
      (transition_duration: "nat option")

datatype element =
    Header string
  | Multiselect string "string list" "string list"
  | Slider string float64 float64 "float64 \<times> float64"
  | Button string
  | Title string
  | Caption string
  | Subheader string
  | Divider
  | Markdown string bool
  | Columns "element list"
  | Metric string scalar
  | Plotly_Chart figure bool
  | Dataframe "employee list" bool

record page_config =
  page_title :: string
  page_icon :: string
  layout :: string

record page =
  config :: page_config
  sidebar :: "element list"
  main :: "element list"

section \<open>Labels\<close>

definition emoji_chart :: string where
  "emoji_chart = [CHR 0xF0, CHR 0x9F, CHR 0x93, CHR 0x8A]"

definition emoji_magnifier :: string where
  "emoji_magnifier = [CHR 0xF0, CHR 0x9F, CHR 0x94, CHR 0x8D]"

definition emoji_arrows :: string where
  "emoji_arrows = [CHR 0xF0, CHR 0x9F, CHR 0x94, CHR 0x84]"

definition emoji_pin :: string where
  "emoji_pin = [CHR 0xF0, CHR 0x9F, CHR 0x93, CHR 0x8C]"

section \<open>The page configuration, the style sheet and the sidebar\<close>

definition set_page_config :: page_config where
  "set_page_config =
     \<lparr>page_title = ''Employee Analytics Dashboard'', page_icon = emoji_chart, layout = ''wide''\<rparr>"

text \<open>
  The style sheet is the text between the triple quotes, line by line; the script hands
  it to \<open>st.markdown\<close> with \<open>unsafe_allow_html\<close> set.
\<close>

definition custom_css :: string where
  \<open>custom_css =
     CHR 0x0A # concat (map (\<lambda>l. l @ [CHR 0x0A])
       [''<style>'',
        ''body {'',
        ''    background: linear-gradient(135deg, #e0f2fe, #bae6fd);'',
        ''}'',
        [],
        ''div[data-testid="metric-container"] {'',
        ''    background-color: rgba(255, 255, 255, 0.35);'',
        ''    border-radius: 14px;'',
        ''    padding: 18px;'',
        ''    box-shadow: 0 6px 20px rgba(0,0,0,0.15);'',
        ''}'',
        ''</style>''])\<close>

definition style_block :: element where
  "style_block = Markdown custom_css True"

definition reset_label :: string where
  "reset_label = emoji_arrows @ '' Reset Filters''"

definition sidebar_panel :: "'a dataframe \<Rightarrow> widget_state \<Rightarrow> element list" where
  "sidebar_panel df ws =
     [Header (emoji_magnifier @ '' Filters''),
      Multiselect ''Select Department'' (department_options df) (department df ws),
      Multiselect ''Employee Status'' (status_options df) (status df ws),
      Slider ''Performance Rating Range'' (rating_min df) (rating_max df) (rating_range df ws),
      Button reset_label]"

section \<open>The KPI row\<close>

definition kpi_row :: "'a dataframe \<Rightarrow> element" where
  "kpi_row fdf =
     Columns
       [Metric ''Total Employees'' (IntVal (total_emp fdf)),
        Metric ''Active Employees'' (IntVal (active_emp fdf)),
        Metric ''Avg Performance Rating'' (FloatVal (avg_rating fdf))]"

section \<open>The charts\<close>

text \<open>
  \<open>reset_index()\<close> turns the counts into a table of two columns, which the script
  renames; the group means keep the names of their columns.
\<close>

definition count_table :: "string \<Rightarrow> (string \<times> nat) list \<Rightarrow> chart_table" where
  "count_table label counts =
     \<lparr>columns = (label, ''Employees''), table_rows = map (\<lambda>(v, n). (v, IntVal n)) counts\<rparr>"

definition mean_table :: "(string \<times> float64) list \<Rightarrow> chart_table" where
  "mean_table means =
     \<lparr>columns = (''DepartmentType'', ''Current Employee Rating''),
      table_rows = map (\<lambda>(d, m). (d, FloatVal m)) means\<rparr>"

definition update_layout :: "figure \<Rightarrow> nat \<Rightarrow> figure" where
  "update_layout fig d =
     (case fig of
        Bar t x y txt auto c _ \<Rightarrow> Bar t x y txt auto c (Some d)
      | Pie t n v h _ \<Rightarrow> Pie t n v h (Some d))"

definition fig1 :: "'a dataframe \<Rightarrow> figure" where
  "fig1 fdf =
     update_layout
       (Bar (count_table ''Department'' (dept_count fdf)) ''Department'' ''Employees''
          (Some ''Employees'') False ''Department'' None)
       600"

definition fig2 :: "'a dataframe \<Rightarrow> figure" where
  "fig2 fdf =
     update_layout
       (Pie (count_table ''Performance Score'' (perf_count fdf)) ''Performance Score''
          ''Employees'' (4 / 10) None)
       600"

definition fig3 :: "'a dataframe \<Rightarrow> figure" where
  "fig3 fdf =
     update_layout
       (Bar (count_table ''Employee Type'' (type_count fdf)) ''Employee Type'' ''Employees''
          (Some ''Employees'') False ''Employee Type'' None)
       600"

definition fig4 :: "'a dataframe \<Rightarrow> figure" where
  "fig4 fdf =
     update_layout
       (Bar (mean_table (dept_perf fdf)) ''DepartmentType'' ''Current Employee Rating''
          None True ''DepartmentType'' None)
       600"

section \<open>The table and the main area\<close>

definition employee_table :: "'a dataframe \<Rightarrow> employee list" where
  "employee_table fdf = map employee.truncate fdf"

definition main_panel :: "'a dataframe \<Rightarrow> element list" where
  "main_panel fdf =
     [Title (emoji_chart @ '' Employee Analytics Dashboard''),
      Caption ''Interactive HR Analytics Dashboard using Streamlit & Plotly'',
      kpi_row fdf,
      Divider,
      Subheader ''Employees by Department'',
      Plotly_Chart (fig1 fdf) True,
      Subheader ''Performance Score Distribution'',
      Plotly_Chart (fig2 fdf) True,
      Subheader ''Employee Type Breakdown'',
      Plotly_Chart (fig3 fdf) True,
      Subheader ''Average Performance Rating by Department'',
      Plotly_Chart (fig4 fdf) True,
      Subheader ''Employee Details (Drill-Down View)'',
      Dataframe (employee_table fdf) True,
      Markdown ''---'' False,
      Caption (emoji_pin @ '' Built using Streamlit & Plotly | HR Analytics Project'')]"

definition render :: "'a dataframe \<Rightarrow> widget_state \<Rightarrow> page" where
  "render df ws =
     \<lparr>config = set_page_config,
      sidebar = sidebar_panel df ws,
      main = style_block # main_panel (current_view df ws)\<rparr>"

section \<open>Reading a chart\<close>

text \<open>The labels of the bars or slices of a chart, and their heights where they are counts.\<close>

definition bar_labels :: "figure \<Rightarrow> string list" where
  "bar_labels fig = map fst (table_rows (fig_table fig))"

definition bar_counts :: "figure \<Rightarrow> nat list" where
  "bar_counts fig =
     map (\<lambda>(l, v). case v of IntVal n \<Rightarrow> n | FloatVal x \<Rightarrow> 0) (table_rows (fig_table fig))"

section \<open>Lemmas\<close>

lemma fig_table_update_layout [simp]: "fig_table (update_layout fig d) = fig_table fig"
  by (cases fig) (simp_all add: update_layout_def)

lemma bar_labels_count_table:
  "map fst (table_rows (count_table label counts)) = map fst counts"
  by (simp add: count_table_def comp_def case_prod_unfold)

lemma bar_counts_count_table:
  "map (\<lambda>(l, v). case v of IntVal n \<Rightarrow> n | FloatVal x \<Rightarrow> 0)
     (table_rows (count_table label counts)) = map snd counts"
  by (simp add: count_table_def comp_def case_prod_unfold)

lemma bar_labels_mean_table:
  "map fst (table_rows (mean_table means)) = map fst means"
  by (simp add: mean_table_def comp_def case_prod_unfold)

lemmas chart_simps =
  bar_labels_def bar_counts_def fig1_def fig2_def fig3_def fig4_def
  bar_labels_count_table bar_counts_count_table bar_labels_mean_table

end
