(* ===== verification/Session.thy ===== *)
theory Session
  imports Presenter
begin

text \<open>
  The script as a whole and the sessions it serves.

  \<open>script\<close> is one execution of \<open>src/main.py\<close> from top to bottom: it loads the table
  through the cache and then (\<open>run_page\<close>) subscripts the columns, draws the widgets, and
  either asks for a rerun (the reset button was clicked: \<open>st.experimental_rerun()\<close> stops
  the run) or completes with the page. A failure of the loader ends the run before any
  widget is drawn, with the page configuration and the style sheet on the page
  (\<open>page_before_load\<close>); a column that the table lacks ends it with a \<open>KeyError\<close> at the first
  subscript of that column, with the part of the page emitted until then
  (\<open>page_so_far\<close>).

  The rest is the execution model the specification describes: every event of the user
  updates the value of one widget and runs the whole script again; a run that asks for
  a rerun is followed by one more run, in which the button is no longer clicked.
  \<open>session\<close> holds what lives between runs (the cache, the widget values, what the
  browser shows), \<open>event\<close> is what the user can do, \<open>enabled\<close> is what the page lets the
  user do (a selection among the options shown, a range inside the slider, both only
  while the widgets are on the screen), \<open>handle\<close> is the reaction, and \<open>reachable\<close> are
  the sessions that a sequence of enabled events leads to, the file on disk being
  arbitrary at every step.

  The theorems: an invariant of the reachable sessions (valid widget values, the screen
  is what the script makes of the cached table under the current widget values), that
  every event ends after at most two runs, that the table of a session never changes
  once loaded, that the reset button leaves the session as it was, and what happens
  when the file lacks a column.
\<close>

section \<open>One run of the script\<close>

text \<open>
  How a run ends: with the page, with a request for a rerun, with the exception of the
  loader, or with the \<open>KeyError\<close> of a column the table lacks. A run that fails leaves
  the part of the page that was emitted before the failing line.
\<close>

datatype run_result =
    Completed page
  | Rerun_Requested
  | Crashed load_error page
  | Key_Error string page

definition page_before_load :: page where
  "page_before_load = \<lparr>config = set_page_config, sidebar = [], main = [style_block]\<rparr>"

definition page_so_far :: "'a dataframe \<Rightarrow> widget_state \<Rightarrow> nat \<Rightarrow> nat \<Rightarrow> page" where
  "page_so_far df ws k n =
     \<lparr>config = set_page_config,
      sidebar = take k (sidebar_panel df ws),
      main = take n (style_block # main_panel (current_view df ws))\<rparr>"

text \<open>
  The script after the table is loaded. The columns are subscripted in this order: the
  departments for the first multiselect, the statuses for the second, the ratings for
  the slider, then (after the button and the filter, which use the same three) the
  performance scores for the second chart and the employee types for the third.
\<close>

definition run_page :: "'a table \<Rightarrow> widget_state \<Rightarrow> bool \<Rightarrow> run_result" where
  "run_page tb ws reset_clicked =
     (let df = records tb in
      if \<not> has_col tb col_department then Key_Error col_department (page_so_far df ws 1 1)
      else if \<not> has_col tb col_status then Key_Error col_status (page_so_far df ws 2 1)
      else if \<not> has_col tb col_rating then Key_Error col_rating (page_so_far df ws 3 1)
      else if reset_clicked then Rerun_Requested
      else if \<not> has_col tb col_score then Key_Error col_score (page_so_far df ws 5 8)
      else if \<not> has_col tb col_type then Key_Error col_type (page_so_far df ws 5 10)
      else Completed (render df ws))"

definition script ::
  "'a disk \<Rightarrow> 'a cache \<Rightarrow> widget_state \<Rightarrow> bool \<Rightarrow> run_result \<times> 'a cache" where
  "script disk cache ws reset_clicked =
     (case load_data disk cache of
        (Inl e, cache') \<Rightarrow> (Crashed e page_before_load, cache')
      | (Inr tb, cache') \<Rightarrow> (run_page tb ws reset_clicked, cache'))"

definition key_error_of :: "run_result \<Rightarrow> string option" where
  "key_error_of r = (case r of Key_Error c p \<Rightarrow> Some c | _ \<Rightarrow> None)"

section \<open>Sessions and events\<close>

record 'a session =
  cache :: "'a cache"
  widgets :: widget_state
  screen :: "run_result option"

definition init_session :: "'a session" where
  "init_session = \<lparr>cache = None, widgets = initial_widgets, screen = None\<rparr>"

datatype event =
    Open_Page
  | Select_Department "string list"
  | Select_Status "string list"
  | Move_Slider "float64 \<times> float64"
  | Click_Reset

text \<open>
  The runs an event triggers: one run, and a second one if the first asked for it. The
  second run sees the button released.
\<close>

definition run_script :: "'a disk \<Rightarrow> 'a session \<Rightarrow> bool \<Rightarrow> 'a session" where
  "run_script disk s clicked =
     (case script disk (cache s) (widgets s) clicked of
        (Rerun_Requested, c) \<Rightarrow>
          (case script disk c (widgets s) False of
             (r, c') \<Rightarrow> s\<lparr>cache := c', screen := Some r\<rparr>)
      | (r, c) \<Rightarrow> s\<lparr>cache := c, screen := Some r\<rparr>)"

fun handle :: "'a disk \<Rightarrow> 'a session \<Rightarrow> event \<Rightarrow> 'a session" where
  "handle disk s Open_Page = run_script disk (s\<lparr>widgets := initial_widgets\<rparr>) False"
| "handle disk s (Select_Department sel) =
     run_script disk (s\<lparr>widgets := (widgets s)\<lparr>w_department := Some sel\<rparr>\<rparr>) False"
| "handle disk s (Select_Status sel) =
     run_script disk (s\<lparr>widgets := (widgets s)\<lparr>w_status := Some sel\<rparr>\<rparr>) False"
| "handle disk s (Move_Slider v) =
     run_script disk (s\<lparr>widgets := (widgets s)\<lparr>w_rating := Some v\<rparr>\<rparr>) False"
| "handle disk s Click_Reset = run_script disk s True"

text \<open>
  The widgets are on the screen when the last run got past the sidebar: it completed, or
  it failed in the main area. \<open>shown_table\<close> is the table they were drawn from.
\<close>

definition widgets_drawn :: "run_result \<Rightarrow> bool" where
  "widgets_drawn r =
     (case r of Completed p \<Rightarrow> True | Key_Error c p \<Rightarrow> length (sidebar p) = 5 | _ \<Rightarrow> False)"

definition shown_table :: "'a session \<Rightarrow> 'a dataframe option" where
  "shown_table s =
     (case screen s of None \<Rightarrow> None
      | Some r \<Rightarrow> if widgets_drawn r then map_option records (cache s) else None)"

fun enabled :: "'a session \<Rightarrow> event \<Rightarrow> bool" where
  "enabled s Open_Page = True"
| "enabled s (Select_Department sel) =
     (case shown_table s of None \<Rightarrow> False
      | Some df \<Rightarrow> valid_selection (department_options df) sel)"
| "enabled s (Select_Status sel) =
     (case shown_table s of None \<Rightarrow> False
      | Some df \<Rightarrow> valid_selection (status_options df) sel)"
| "enabled s (Move_Slider v) =
     (case shown_table s of None \<Rightarrow> False
      | Some df \<Rightarrow> valid_range (rating_min df) (rating_max df) v)"
| "enabled s Click_Reset = (shown_table s \<noteq> None)"

inductive reachable :: "'a session \<Rightarrow> bool" where
  start: "reachable init_session"
| step: "reachable s \<Longrightarrow> enabled s e \<Longrightarrow> reachable (handle disk s e)"

text \<open>
  The invariant: before the first run nothing is cached and nothing is shown; a session
  that has no table shows the failure of the loader and its widgets are untouched; a
  session with a table holds valid widget values and shows what the script makes of
  that table under those values.
\<close>

definition session_inv :: "'a session \<Rightarrow> bool" where
  "session_inv s \<longleftrightarrow>
     (case cache s of
        None \<Rightarrow> widgets s = initial_widgets \<and>
          (case screen s of None \<Rightarrow> True | Some (Crashed e p) \<Rightarrow> p = page_before_load
           | _ \<Rightarrow> False)
      | Some tb \<Rightarrow> valid_widgets (records tb) (widgets s) \<and>
          screen s = Some (run_page tb (widgets s) False))"

text \<open>
  Sessions for the closed instances: the scenario table, opened, Sales selected; and a
  session opened on the file without performance scores.
\<close>

definition scenario_disk :: "unit disk" where
  "scenario_disk = (\<lambda>_. Inr scenario_table)"

definition opened_session :: "unit session" where
  "opened_session = handle scenario_disk init_session Open_Page"

definition sales_session :: "unit session" where
  "sales_session = handle scenario_disk opened_session (Select_Department [''Sales''])"

definition no_score_session :: "unit session" where
  "no_score_session = handle (\<lambda>_. Inr no_score_table) init_session Open_Page"

section \<open>Lemmas: one run\<close>

lemma has_col_required:
  "set required_columns \<subseteq> set (column_names tb) \<longleftrightarrow>
   has_col tb col_department \<and> has_col tb col_status \<and> has_col tb col_rating \<and>
   has_col tb col_score \<and> has_col tb col_type"
  by (auto simp: required_columns_def has_col_def)

lemma run_page_complete:
  "set required_columns \<subseteq> set (column_names tb) \<Longrightarrow>
   run_page tb ws clicked = (if clicked then Rerun_Requested else Completed (render (records tb) ws))"
  by (simp add: has_col_required run_page_def Let_def)

lemma run_page_released [simp]: "run_page tb ws False \<noteq> Rerun_Requested"
  by (simp add: run_page_def Let_def)

lemma run_page_clicked:
  "run_page tb ws True = Rerun_Requested \<or> run_page tb ws True = run_page tb ws False"
  by (simp add: run_page_def Let_def)

lemma run_page_Completed_iff:
  "run_page tb ws False = Completed p \<longleftrightarrow>
   set required_columns \<subseteq> set (column_names tb) \<and> p = render (records tb) ws"
  by (auto simp: has_col_required run_page_def Let_def)

lemma key_error_run_page:
  "key_error_of (run_page tb ws False) = find (\<lambda>c. \<not> has_col tb c) required_columns"
  by (simp add: key_error_of_def run_page_def required_columns_def Let_def)

lemma script_cached: "script disk (Some tb) ws clicked = (run_page tb ws clicked, Some tb)"
  by (simp add: script_def)

lemma script_miss_error:
  "disk csv_path = Inl e \<Longrightarrow> script disk None ws clicked = (Crashed e page_before_load, None)"
  by (simp add: script_def load_data_miss_error)

lemma script_miss_ok:
  "disk csv_path = Inr tb \<Longrightarrow> script disk None ws clicked = (run_page tb ws clicked, Some tb)"
  by (simp add: script_def load_data_miss_ok)

lemma script_released: "fst (script disk c ws False) \<noteq> Rerun_Requested"
  by (auto simp: script_def split: prod.splits sum.splits)

section \<open>Lemmas: the runs of an event\<close>

lemma run_script_loaded:
  assumes "script disk (cache s) (widgets s) clicked = (run_page tb (widgets s) clicked, Some tb)"
  shows "run_script disk s clicked =
         s\<lparr>cache := Some tb, screen := Some (run_page tb (widgets s) False)\<rparr>"
proof -
  consider "run_page tb (widgets s) clicked = Rerun_Requested"
    | "run_page tb (widgets s) clicked = run_page tb (widgets s) False"
    using run_page_clicked [of tb "widgets s"] by (cases clicked) auto
  then show ?thesis
  proof cases
    case 1
    with assms show ?thesis by (simp add: run_script_def script_cached)
  next
    case 2
    with assms show ?thesis by (simp add: run_script_def split: run_result.splits)
  qed
qed

lemma run_script_cached:
  "cache s = Some tb \<Longrightarrow>
   run_script disk s clicked = s\<lparr>screen := Some (run_page tb (widgets s) False)\<rparr>"
  by (simp add: run_script_loaded script_cached)

lemma run_script_miss_error:
  "cache s = None \<Longrightarrow> disk csv_path = Inl e \<Longrightarrow>
   run_script disk s clicked = s\<lparr>screen := Some (Crashed e page_before_load)\<rparr>"
  by (simp add: run_script_def script_miss_error)

lemma run_script_miss_ok:
  "cache s = None \<Longrightarrow> disk csv_path = Inr tb \<Longrightarrow>
   run_script disk s clicked =
   s\<lparr>cache := Some tb, screen := Some (run_page tb (widgets s) False)\<rparr>"
  by (simp add: run_script_loaded script_miss_ok)

lemmas run_script_simps = run_script_cached run_script_miss_error run_script_miss_ok

lemma screen_run_script:
  "screen (run_script disk s clicked) \<noteq> Some Rerun_Requested \<and>
   screen (run_script disk s clicked) \<noteq> None"
proof (cases "cache s")
  case None
  then show ?thesis by (cases "disk csv_path") (simp_all add: run_script_simps)
next
  case (Some tb)
  then show ?thesis by (simp add: run_script_simps)
qed

lemma cache_run_script:
  "cache s = Some tb \<Longrightarrow> cache (run_script disk s clicked) = Some tb"
  by (simp add: run_script_cached)

section \<open>Lemmas: the invariant\<close>

lemma shown_table_inv:
  "session_inv s \<Longrightarrow> shown_table s = Some df \<Longrightarrow> \<exists>tb. cache s = Some tb \<and> df = records tb"
  by (auto simp: session_inv_def shown_table_def widgets_drawn_def
      split: option.splits run_result.splits if_splits)

lemma session_inv_init: "session_inv init_session"
  by (simp add: session_inv_def init_session_def)

lemma session_inv_run_script:
  assumes "case cache s of None \<Rightarrow> widgets s = initial_widgets
           | Some tb \<Rightarrow> valid_widgets (records tb) (widgets s)"
  shows "session_inv (run_script disk s clicked)"
proof (cases "cache s")
  case None
  with assms show ?thesis
    by (cases "disk csv_path") (simp_all add: run_script_simps session_inv_def)
next
  case (Some tb)
  with assms show ?thesis by (simp add: run_script_simps session_inv_def)
qed

lemma valid_widgets_update:
  "valid_widgets df ws \<Longrightarrow> valid_selection (department_options df) sel \<Longrightarrow>
   valid_widgets df (ws\<lparr>w_department := Some sel\<rparr>)"
  "valid_widgets df ws \<Longrightarrow> valid_selection (status_options df) sel \<Longrightarrow>
   valid_widgets df (ws\<lparr>w_status := Some sel\<rparr>)"
  "valid_widgets df ws \<Longrightarrow> valid_range (rating_min df) (rating_max df) v \<Longrightarrow>
   valid_widgets df (ws\<lparr>w_rating := Some v\<rparr>)"
  by (simp_all add: valid_widgets_def)

lemma session_inv_handle:
  assumes "session_inv s" and "enabled s e"
  shows "session_inv (handle disk s e)"
proof (cases "e = Open_Page")
  case True
  then show ?thesis by (simp add: session_inv_run_script split: option.splits)
next
  case False
  with assms(2) obtain df where "shown_table s = Some df"
    by (cases e) (auto split: option.splits)
  with assms(1) obtain tb where tb: "cache s = Some tb" and tab: "shown_table s = Some (records tb)"
    by (auto dest: shown_table_inv)
  with assms(1) have val: "valid_widgets (records tb) (widgets s)"
    by (simp add: session_inv_def)
  show ?thesis
    using assms(2) tb tab val
    by (cases e) (simp_all add: session_inv_run_script valid_widgets_update)
qed

lemma reachable_inv: "reachable s \<Longrightarrow> session_inv s"
proof (induction rule: reachable.induct)
  case start
  show ?case by (rule session_inv_init)
next
  case (step s e disk)
  then show ?case by (simp add: session_inv_handle)
qed

lemma reachable_loaded:
  assumes "reachable s" and "cache s = Some tb"
  shows "valid_widgets (records tb) (widgets s)"
    and "screen s = Some (run_page tb (widgets s) False)"
  using reachable_inv [OF assms(1)] assms(2)
  by (simp_all add: session_inv_def)

lemma reachable_complete:
  assumes "reachable s" and "cache s = Some tb"
    and "set required_columns \<subseteq> set (column_names tb)"
  shows "valid_widgets (records tb) (widgets s)"
    and "screen s = Some (Completed (render (records tb) (widgets s)))"
  using reachable_loaded [OF assms(1,2)] assms(3) by (simp_all add: run_page_complete)

section \<open>Lemmas: the example sessions\<close>

lemma scenario_table_complete [simp]:
  "set required_columns \<subseteq> set (column_names scenario_table)"
  "records scenario_table = scenario_df"
  by (simp_all add: scenario_table_def)

lemma opened_session_eval:
  "opened_session =
   \<lparr>cache = Some scenario_table, widgets = initial_widgets,
    screen = Some (Completed (render scenario_df initial_widgets))\<rparr>"
  by (simp add: opened_session_def init_session_def run_script_miss_ok scenario_disk_def
      run_page_complete)

lemma sales_session_eval:
  "sales_session =
   \<lparr>cache = Some scenario_table, widgets = initial_widgets\<lparr>w_department := Some [''Sales'']\<rparr>,
    screen = Some (Completed (render scenario_df
      (initial_widgets\<lparr>w_department := Some [''Sales'']\<rparr>)))\<rparr>"
  by (simp add: sales_session_def opened_session_eval run_script_cached run_page_complete)

lemma no_score_session_eval:
  "no_score_session =
   \<lparr>cache = Some no_score_table, widgets = initial_widgets,
    screen = Some (Key_Error col_score (page_so_far scenario_df initial_widgets 5 8))\<rparr>"
  by (simp add: no_score_session_def init_session_def run_script_miss_ok run_page_def
      no_score_table_def column_defs)

lemma department_options_scenario: "department_options scenario_df = [''Sales'', ''Eng'']"
  by (simp add: sidebar_defs frame_defs scenario_df_def)

lemma shown_table_sales: "shown_table sales_session = Some scenario_df"
  by (simp add: sales_session_eval shown_table_def widgets_drawn_def)

lemma reachable_sales_session: "reachable sales_session"
  unfolding sales_session_def
proof (rule reachable.step)
  show "reachable opened_session"
    unfolding opened_session_def by (rule reachable.step [OF reachable.start]) simp
  show "enabled opened_session (Select_Department [''Sales''])"
    by (simp add: opened_session_eval shown_table_def widgets_drawn_def valid_selection_def
        department_options_scenario)
qed

lemma reachable_no_score_session: "reachable no_score_session"
  unfolding no_score_session_def by (rule reachable.step [OF reachable.start]) simp

lemma run_page_Key_Error:
  assumes "\<not> set required_columns \<subseteq> set (column_names tb)"
  shows "\<exists>c p. run_page tb ws False = Key_Error c p \<and> c \<in> set required_columns \<and> \<not> has_col tb c"
  using assms by (auto simp: has_col_def run_page_def Let_def required_columns_def)

lemma key_error_of_Some: "key_error_of r = Some c \<Longrightarrow> \<exists>p. r = Key_Error c p"
  by (cases r) (simp_all add: key_error_of_def)

section \<open>Theorems\<close>

text \<open>
  Claim C6. In every session that enabled events lead to and that has loaded a table
  with the five columns, the widgets hold values the page offers (selections among the
  options, a range inside the slider) and the browser shows the page computed from the
  cached table and the current widget values: the main area is the style sheet followed
  by the rendering of the current view.
\<close>

theorem reachable_session_shows_view:
  assumes "reachable s" and "cache s = Some tb"
    and "set required_columns \<subseteq> set (column_names tb)"
  shows "valid_widgets (records tb) (widgets s) \<and>
         screen s = Some (Completed (render (records tb) (widgets s))) \<and>
         main (render (records tb) (widgets s)) =
           style_block # main_panel (current_view (records tb) (widgets s))"
  using reachable_complete [OF assms] by (simp add: render_def)

theorem reachable_session_shows_view_witness:
  "valid_widgets scenario_df (widgets sales_session) \<and>
   screen sales_session = Some (Completed (render scenario_df (widgets sales_session))) \<and>
   main (render scenario_df (widgets sales_session)) =
     style_block # main_panel (current_view scenario_df (widgets sales_session))"
  using reachable_session_shows_view [OF reachable_sales_session, of scenario_table]
  by (simp add: sales_session_eval)

text \<open>
  Claim C3. Clicking the reset button leaves the session exactly as it was: the widget values
  survive the rerun, so the selections and the range are not restored to their defaults
  and the same filtered page is shown again.
\<close>

theorem reset_changes_nothing:
  assumes "reachable s" and "enabled s Click_Reset"
  shows "handle disk s Click_Reset = s"
proof -
  from assms(2) obtain df where "shown_table s = Some df" by auto
  with assms(1) obtain tb where tb: "cache s = Some tb"
    by (auto dest: reachable_inv shown_table_inv)
  with assms(1) have "screen s = Some (run_page tb (widgets s) False)"
    by (rule reachable_loaded)
  with tb show ?thesis by (simp add: run_script_cached)
qed

theorem reset_changes_nothing_witness:
  "handle scenario_disk sales_session Click_Reset = sales_session \<and>
   department scenario_df (widgets (handle scenario_disk sales_session Click_Reset)) = [''Sales''] \<and>
   department scenario_df initial_widgets = [''Sales'', ''Eng'']"
proof -
  have "enabled sales_session Click_Reset"
    by (simp add: shown_table_sales)
  with reachable_sales_session
  have "handle scenario_disk sales_session Click_Reset = sales_session"
    by (rule reset_changes_nothing)
  then show ?thesis
    by (simp add: sales_session_eval department_def multiselect_def department_options_scenario
        initial_widgets_def)
qed

text \<open>
  Claim C17. Every event ends with something on the screen that is not a pending rerun: a page,
  the failure of the loader or a key error. The rerun the reset button asks for is
  served by one more run, which cannot ask again.
\<close>

theorem every_event_ends:
  "screen (handle disk s e) \<noteq> Some Rerun_Requested \<and> screen (handle disk s e) \<noteq> None"
  by (cases e) (simp_all add: screen_run_script)

text \<open>
  Claim C16. Once a session has a table it keeps it through every event, whatever the file on
  disk holds by then, even if the file has become unreadable.
\<close>

theorem table_never_changes:
  assumes "cache s = Some tb"
  shows "cache (handle disk s e) = Some tb"
  using assms by (cases e) (simp_all add: cache_run_script)

theorem table_never_changes_witness:
  "cache (handle (\<lambda>_. Inl FileNotFound) sales_session (Move_Slider (Some 2, Some 4))) =
   Some scenario_table"
  by (rule table_never_changes) (simp add: sales_session_eval)

section \<open>Theorems: a table that lacks a column\<close>

text \<open>
  Claim C14. A run on a loaded table raises \<open>KeyError\<close> for the first column, in the order
  the script subscripts them, that the table lacks, and for no column when the table
  has all five; it completes exactly in that case.
\<close>

theorem script_key_error:
  "key_error_of (fst (script disk (Some tb) ws False)) =
     find (\<lambda>c. \<not> has_col tb c) required_columns \<and>
   ((\<exists>p. fst (script disk (Some tb) ws False) = Completed p) \<longleftrightarrow>
     set required_columns \<subseteq> set (column_names tb))"
  by (simp add: script_cached key_error_run_page run_page_Completed_iff)

text \<open>
  Claim C13. The loader accepts a file that lacks a column the script needs and caches its
  table: the failure is the \<open>KeyError\<close> of the first such column inside the script, not
  an error of the loader.
\<close>

theorem missing_column_fails_in_script:
  assumes "disk csv_path = Inr tb"
    and "find (\<lambda>c. \<not> has_col tb c) required_columns = Some c"
  shows "load_data disk None = (Inr tb, Some tb) \<and>
         (\<exists>p. script disk None ws False = (Key_Error c p, Some tb))"
proof -
  from assms(2) have "key_error_of (run_page tb ws False) = Some c"
    by (simp add: key_error_run_page)
  then obtain p where "run_page tb ws False = Key_Error c p"
    by (auto dest: key_error_of_Some)
  with assms(1) show ?thesis
    by (simp add: script_miss_ok load_data_miss_ok)
qed

theorem missing_column_fails_in_script_witness:
  "load_data (\<lambda>_. Inr no_score_table) None = (Inr no_score_table, Some no_score_table) \<and>
   (\<exists>p. script (\<lambda>_. Inr no_score_table) None initial_widgets False =
      (Key_Error col_score p, Some no_score_table))"
  by (rule missing_column_fails_in_script) (simp_all add: no_score_table_def column_defs)

text \<open>
  Claim C15. A session that has cached a table without one of the columns stays broken:
  every event, also opening the page on a repaired file, ends with a \<open>KeyError\<close> and the
  same table in the cache.
\<close>

theorem missing_column_never_recovers:
  assumes "cache s = Some tb" and "\<not> set required_columns \<subseteq> set (column_names tb)"
  shows "cache (handle disk s e) = Some tb \<and>
         (\<exists>c p. screen (handle disk s e) = Some (Key_Error c p) \<and>
            c \<in> set required_columns \<and> \<not> has_col tb c)"
proof -
  have "\<exists>c p. run_page tb ws False = Key_Error c p \<and> c \<in> set required_columns \<and> \<not> has_col tb c"
    for ws
    using assms(2) by (rule run_page_Key_Error)
  with assms(1) show ?thesis
    by (cases e) (simp_all add: run_script_cached)
qed

theorem missing_column_never_recovers_witness:
  "cache (handle scenario_disk no_score_session Open_Page) = Some no_score_table \<and>
   (\<exists>c p. screen (handle scenario_disk no_score_session Open_Page) = Some (Key_Error c p) \<and>
      c \<in> set required_columns \<and> \<not> has_col no_score_table c)"
  by (rule missing_column_never_recovers)
    (simp_all add: no_score_session_eval no_score_table_def column_defs)

end
