(* ===== verification/Spec2Isabelle.thy ===== *)
theory Spec2Isabelle
  imports Session
begin

text \<open>
  A verification development for the employee analytics dashboard, the Streamlit script
  \<open>src/main.py\<close>.

  \<^bold>\<open>The program.\<close> The script runs from top to bottom on every interaction of the user. It
  loads a table of employees through a cache (\<open>load_data\<close>), draws three filter widgets
  and a reset button in the sidebar, computes the filtered table from the widget values
  (\<open>filtered_df\<close>), and from it three metrics, three tables of value counts, one table of
  group means and a drill-down table, which it hands to Streamlit and plotly.

  \<^bold>\<open>The theories\<close>, in the order of the script:
  \<^item> \<open>Dash_Prelude\<close>: the types of the model (\<open>float64\<close> a real or NaN, \<open>series\<close> a list of
    optional cells, \<open>mask\<close> a list of booleans) and the list lemmas the components share.
  \<^item> \<open>Frame\<close>: the pandas operations the script calls (\<open>dropna\<close>, \<open>unique\<close>, \<open>isin\<close>,
    \<open>between\<close>, \<open>&\<close>, boolean indexing, \<open>min\<close>, \<open>max\<close>, \<open>mean\<close>, \<open>round\<close>, \<open>value_counts\<close>,
    \<open>groupby().mean()\<close>), each with its lemmas: lengths, elements, behaviour on missing
    cells and on the empty column, the first-seen order of \<open>unique\<close> by positions, the
    descending order of the count table.
  \<^item> \<open>Loader\<close>: the row record \<open>employee\<close> (the five columns the script reads; the other
    columns of the file are the extension of the record), the \<open>table\<close> that \<open>read_csv\<close>
    returns (the rows and the names of the columns the file has), and \<open>load_data\<close> with
    the cache of \<open>st.cache_data\<close> as explicit state and the file system as a parameter.
  \<^item> \<open>Sidebar\<close>: the options and bounds computed from the table (\<open>department_options\<close>,
    \<open>status_options\<close>, \<open>rating_min\<close>, \<open>rating_max\<close>), the widget calls (\<open>department\<close>,
    \<open>status\<close>, \<open>rating_range\<close>), and which values a widget lets the user choose.
  \<^item> \<open>Filter_Engine\<close>: \<open>view_mask\<close> and \<open>filtered_df\<close> as the script writes them, the
    row-wise contract \<open>matches\<close>, and the theorems of the filter.
  \<^item> \<open>Aggregator\<close>: \<open>total_emp\<close>, \<open>active_emp\<close>, \<open>avg_rating\<close>, \<open>dept_count\<close>, \<open>perf_count\<close>,
    \<open>type_count\<close>, \<open>dept_perf\<close> and their theorems.
  \<^item> \<open>Presenter\<close>: the page as data (\<open>set_page_config\<close>, \<open>style_block\<close>, \<open>sidebar_panel\<close>,
    \<open>kpi_row\<close>, \<open>fig1\<close> to \<open>fig4\<close>, \<open>employee_table\<close>, \<open>main_panel\<close>, \<open>render\<close>) and how the
    data of a chart is read back from it (\<open>bar_labels\<close>, \<open>bar_counts\<close>).
  \<^item> \<open>Session\<close>: one run of the script (\<open>script\<close>, \<open>run_page\<close>), the reaction to an event
    (\<open>handle\<close>), the reachable sessions and their invariant.
  \<^item> this theory: the contract of the whole dashboard (\<open>spec_view\<close>, \<open>spec_mean\<close>,
    \<open>spec_kpis\<close>) and the theorems that span the components.

  \<^bold>\<open>How the model corresponds to the code.\<close> A definition that models code has the name
  of the variable or function of the script it models and is written the way the script
  computes it; the manifest maps it to its lines. State is passed explicitly: the cache
  goes into \<open>load_data\<close> and comes out of it, the widget values are a record that \<open>handle\<close>
  updates. A failure of \<open>read_csv\<close> is a value (\<open>Inl\<close> of a \<open>load_error\<close>) that ends the run
  (\<open>Crashed\<close>, with the page configuration and the style sheet emitted before the
  load); a subscript with the name of a column the table lacks ends it with
  \<open>Key_Error\<close> and the elements emitted before that line. NaN is \<open>None\<close>: the mean of no
  rows, the bounds of a slider over a table without ratings and a missing cell are
  values of the model, and comparisons with them are false, as in pandas.

  \<^bold>\<open>What is taken from the specification.\<close> The event loop of Streamlit is not code of
  the repository. It is modelled as the specification describes it: every event changes
  one widget value and runs the script once; a run that requests a rerun is followed by
  exactly one more run, with the button released; widget values survive a rerun. The
  reset event is this rerun and nothing else, because that is all the script asks of
  Streamlit (lines 60 and 61); that the specification wants the defaults restored is
  the finding of theorem \<open>reset_changes_nothing\<close>, not a clause of the model. Opening
  the page starts from the defaults of the widgets. The definitions \<open>session\<close>, \<open>event\<close>, \<open>run_script\<close>, \<open>handle\<close>, \<open>widgets_drawn\<close>, \<open>shown_table\<close>,
  \<open>enabled\<close>, \<open>reachable\<close> and the \<open>valid_\<dots>\<close> predicates are marked as such in the
  manifest. No fuel is needed: a second run cannot request a third (\<open>script_released\<close>),
  so \<open>run_script\<close> runs the script at most twice.

  \<^bold>\<open>What the theorems show.\<close>
  \<^item> Refinement: the mask pipeline is the list filter by \<open>matches\<close>; the screen of every
    reachable session shows the metrics and rows of the contract, and its charts add up
    to the total beside them.
  \<^item> Boundary behaviour: missing cells, empty selections, inverted and NaN ranges, the
    empty view, a failing loader.
  \<^item> Consistency of the aggregates: counts add up to the total (or fall short by the
    missing cells), the means lie in the selected range, the charts show the same
    departments, the weighted group means give the overall sum, the bar of a department
    is the metric of the view narrowed to that department.
  \<^item> Sessions: an invariant by rule induction over \<open>reachable\<close>, the table of a session
    never changes, every event ends after at most two runs, the reset button restores
    nothing.
  \<^item> Missing columns: the loader accepts and caches a file that lacks a column; the
    script fails at the first subscript of the first missing column, in every run of
    the session.

  \<^bold>\<open>What is not modelled.\<close> The parser of the CSV file (its result is the parameter
  \<open>disk\<close>), the drawing of charts and widgets and the effect of the style sheet in a
  browser, the rounding of floating-point sums (a float is a real number here, so a
  mean is the exact quotient and the theorems on means and rounding hold up to the
  rounding of IEEE arithmetic), and the behaviour of the slider widget when its bounds
  are NaN or equal. The order of rows with equal counts in \<open>value_counts\<close> is not fixed
  by the code; the definition picks one and no theorem depends on it. Columns are
  typed: a cell is a string or a float as the record says,
  and what pandas does with a column of another type is outside the model. The cache
  of \<open>st.cache_data\<close> is held per session here and is never cleared; Streamlit shares
  it between the sessions of a process and lets the user clear it.
\<close>

section \<open>The contract of the dashboard\<close>

text \<open>
  What the dashboard promises, stated on rows and without the column operations: the
  view is the rows that satisfy the three predicates; the metrics are its size, the
  number of its active rows and the arithmetic mean of its ratings, NaN when there is
  none.
\<close>

definition spec_view :: "'a dataframe \<Rightarrow> widget_state \<Rightarrow> 'a dataframe" where
  "spec_view df ws = filter (matches (department df ws) (status df ws) (rating_range df ws)) df"

definition spec_mean :: "'a dataframe \<Rightarrow> float64" where
  "spec_mean v =
     (if v = [] then None
      else Some (sum_list (map (\<lambda>r. the (Current_Employee_Rating r)) v) / real (length v)))"

definition spec_kpis :: "'a dataframe \<Rightarrow> widget_state \<Rightarrow> element" where
  "spec_kpis df ws =
     Columns
       [Metric ''Total Employees'' (IntVal (length (spec_view df ws))),
        Metric ''Active Employees''
          (IntVal (length (filter (\<lambda>r. EmployeeStatus r = Some ''Active'') (spec_view df ws)))),
        Metric ''Avg Performance Rating'' (FloatVal (round2 (spec_mean (spec_view df ws))))]"

section \<open>Lemmas\<close>

lemma current_view_spec: "current_view df ws = spec_view df ws"
  by (simp add: current_view_def spec_view_def view_simps)

lemma series_mean_view:
  "series_mean (map Current_Employee_Rating (current_view df ws)) = spec_mean (current_view df ws)"
proof -
  let ?v = "current_view df ws"
  have col: "map Some (dropna (map Current_Employee_Rating ?v)) = map Current_Employee_Rating ?v"
    unfolding current_view_def by (rule view_column_present)
  then have "map the (map Some (dropna (map Current_Employee_Rating ?v))) =
      map the (map Current_Employee_Rating ?v)"
    by simp
  then have vals: "dropna (map Current_Employee_Rating ?v) =
      map (\<lambda>r. the (Current_Employee_Rating r)) ?v"
    by (simp add: comp_def)
  show ?thesis
  proof (cases "?v = []")
    case True
    then show ?thesis by (simp add: spec_mean_def series_mean_def)
  next
    case False
    with vals have "dropna (map Current_Employee_Rating ?v) \<noteq> []" by simp
    then show ?thesis using False vals by (simp add: series_mean_eq spec_mean_def)
  qed
qed

lemma kpi_row_spec: "kpi_row (current_view df ws) = spec_kpis df ws"
  by (simp add: kpi_row_def spec_kpis_def total_emp_def active_emp_filter avg_rating_def
      series_mean_view) (simp add: current_view_spec)

section \<open>Theorems that span the components\<close>

text \<open>
  Claim C2. From the file to the screen: in every reachable session that has loaded a
  table with the five columns, the browser shows a page whose metrics are those of the
  contract (the number of rows that satisfy the three predicates, the number of active
  ones among them, their mean rating rounded to two decimals) and whose table lists
  exactly these rows.
\<close>

theorem session_screen_meets_contract:
  assumes "reachable s" and "cache s = Some tb"
    and "set required_columns \<subseteq> set (column_names tb)"
  shows "\<exists>p. screen s = Some (Completed p) \<and>
           main p ! 3 = spec_kpis (records tb) (widgets s) \<and>
           main p ! 14 =
             Dataframe (map employee.truncate (spec_view (records tb) (widgets s))) True"
proof -
  let ?df = "records tb"
  let ?p = "render ?df (widgets s)"
  from assms have "screen s = Some (Completed ?p)" by (rule reachable_complete)
  moreover have "main ?p ! 3 = spec_kpis ?df (widgets s)"
    by (simp add: render_def main_panel_def kpi_row_spec)
  moreover have "main ?p ! 14 = Dataframe (map employee.truncate (spec_view ?df (widgets s))) True"
    by (simp add: render_def main_panel_def employee_table_def current_view_spec)
  ultimately show ?thesis by blast
qed

theorem session_screen_meets_contract_witness:
  "\<exists>p. screen sales_session = Some (Completed p) \<and>
     main p ! 3 = spec_kpis scenario_df (widgets sales_session) \<and>
     main p ! 14 =
       Dataframe (map employee.truncate (spec_view scenario_df (widgets sales_session))) True"
  by (rule session_screen_meets_contract [where tb = scenario_table,
        unfolded scenario_table_complete, OF reachable_sales_session])
    (simp_all add: sales_session_eval)

text \<open>
  Claim C28. The charts on the screen agree with the metric beside them: in every reachable
  session that has loaded a table with the five columns, the bars of the department
  chart add up to the number of rows of the contract's view (the total the first metric
  shows), the slices of the score chart and the bars of the type chart add up to it
  less the rows that miss that cell, and the chart of means has the departments of the
  department chart, in ascending order.
\<close>

theorem screen_charts_add_up:
  assumes "reachable s" and "cache s = Some tb"
    and "set required_columns \<subseteq> set (column_names tb)"
  shows "\<exists>p f1 f2 f3 f4.
           screen s = Some (Completed p) \<and>
           main p ! 6 = Plotly_Chart f1 True \<and> main p ! 8 = Plotly_Chart f2 True \<and>
           main p ! 10 = Plotly_Chart f3 True \<and> main p ! 12 = Plotly_Chart f4 True \<and>
           sum_list (bar_counts f1) = length (spec_view (records tb) (widgets s)) \<and>
           sum_list (bar_counts f2) +
             length (filter (\<lambda>r. Performance_Score r = None) (spec_view (records tb) (widgets s))) =
             length (spec_view (records tb) (widgets s)) \<and>
           sum_list (bar_counts f3) +
             length (filter (\<lambda>r. EmployeeType r = None) (spec_view (records tb) (widgets s))) =
             length (spec_view (records tb) (widgets s)) \<and>
           bar_labels f4 = sort (bar_labels f1)"
proof -
  let ?v = "current_view (records tb) (widgets s)"
  let ?p = "render (records tb) (widgets s)"
  from assms have "screen s = Some (Completed ?p)" by (rule reachable_complete)
  moreover have "main ?p ! 6 = Plotly_Chart (fig1 ?v) True" "main ?p ! 8 = Plotly_Chart (fig2 ?v) True"
    "main ?p ! 10 = Plotly_Chart (fig3 ?v) True" "main ?p ! 12 = Plotly_Chart (fig4 ?v) True"
    by (simp_all add: render_def main_panel_def)
  moreover have "sum_list (bar_counts (fig1 ?v)) = length ?v"
    unfolding current_view_def
    by (simp add: chart_simps dept_count_def sum_value_counts view_department_column)
  moreover have "sum_list (bar_counts (fig2 ?v)) +
      length (filter (\<lambda>r. Performance_Score r = None) ?v) = length ?v"
    by (simp add: chart_simps perf_count_def sum_value_counts_column)
  moreover have "sum_list (bar_counts (fig3 ?v)) +
      length (filter (\<lambda>r. EmployeeType r = None) ?v) = length ?v"
    by (simp add: chart_simps type_count_def sum_value_counts_column)
  moreover have "bar_labels (fig4 ?v) = sort (bar_labels (fig1 ?v))"
    by (simp add: chart_simps dept_perf_def dept_count_def map_fst_groupby_mean
        sort_fst_value_counts)
  ultimately show ?thesis
    unfolding current_view_spec by blast
qed

theorem screen_charts_add_up_witness:
  "\<exists>p f1 f2 f3 f4.
     screen sales_session = Some (Completed p) \<and>
     main p ! 6 = Plotly_Chart f1 True \<and> main p ! 8 = Plotly_Chart f2 True \<and>
     main p ! 10 = Plotly_Chart f3 True \<and> main p ! 12 = Plotly_Chart f4 True \<and>
     sum_list (bar_counts f1) = length (spec_view scenario_df (widgets sales_session)) \<and>
     sum_list (bar_counts f2) +
       length (filter (\<lambda>r. Performance_Score r = None)
         (spec_view scenario_df (widgets sales_session))) =
       length (spec_view scenario_df (widgets sales_session)) \<and>
     sum_list (bar_counts f3) +
       length (filter (\<lambda>r. EmployeeType r = None)
         (spec_view scenario_df (widgets sales_session))) =
       length (spec_view scenario_df (widgets sales_session)) \<and>
     bar_labels f4 = sort (bar_labels f1)"
  by (rule screen_charts_add_up [where tb = scenario_table,
        unfolded scenario_table_complete, OF reachable_sales_session])
    (simp_all add: sales_session_eval)

end
